theory Spec2Isabelle
  imports Complex_Main
begin

section \<open>JavaScript values as the relay sees them\<close>

text \<open>
  The relay handles only values that \<^verbatim>\<open>JSON.parse\<close> produced, so a JavaScript value
  is a JSON tree. An object is an association list in property order (\<open>map_of\<close> reads a
  property; a decoded object has each key once). A number is the rational value of the
  double, or an infinity: \<^verbatim>\<open>JSON.parse\<close> reads a numeral beyond the range of a double,
  such as \<^verbatim>\<open>1e309\<close>, as \<^verbatim>\<open>Infinity\<close> (\<open>JInfinity False\<close>) or \<^verbatim>\<open>-Infinity\<close>
  (\<open>JInfinity True\<close>). \<^verbatim>\<open>undefined\<close> is not a JSON value: an expression that may be
  undefined has type \<open>json option\<close>, with \<open>None\<close> for \<^verbatim>\<open>undefined\<close>.
\<close>

datatype json =
    JNull
  | JBool bool
  | JNum rat
  | JInfinity bool
  | JStr string
  | JArr "json list"
  | JObj "(string \<times> json) list"

text \<open>
  Exceptions: \<^verbatim>\<open>new Error(msg)\<close> of the source, the \<^verbatim>\<open>TypeError\<close> the runtime raises
  on a property read of \<^verbatim>\<open>null\<close>, and the \<^verbatim>\<open>RangeError\<close> it raises when a recursion
  exhausts the stack. \<open>exn_toString\<close> is \<^verbatim>\<open>e.toString()\<close>.
\<close>

datatype exn = Error string | TypeError string | RangeError string

fun exn_toString :: "exn \<Rightarrow> string" where
  "exn_toString (Error msg) = (if msg = [] then ''Error'' else ''Error: '' @ msg)"
| "exn_toString (TypeError msg) = (if msg = [] then ''TypeError'' else ''TypeError: '' @ msg)"
| "exn_toString (RangeError msg) = (if msg = [] then ''RangeError'' else ''RangeError: '' @ msg)"

text \<open>The message of the engine's TypeError for \<^verbatim>\<open>null.p\<close> (V8's wording).\<close>

definition null_read :: "string \<Rightarrow> exn" where
  "null_read p = TypeError (''Cannot read properties of null (reading '' @ [CHR 0x27] @ p @ [CHR 0x27] @ '')'')"

text \<open>
  \<open>property v k\<close> is the property read \<^verbatim>\<open>v.k\<close> for a value other than \<^verbatim>\<open>null\<close>, at the
  keys the relay reads (\<^verbatim>\<open>version\<close>, \<^verbatim>\<open>id\<close>, \<^verbatim>\<open>method\<close>, \<^verbatim>\<open>target\<close>, \<^verbatim>\<open>params\<close>,
  \<^verbatim>\<open>result\<close>, \<^verbatim>\<open>error\<close>, \<^verbatim>\<open>requestId\<close>, \<^verbatim>\<open>clientId\<close>): none of them is a property of
  a string, number, boolean or array, nor of \<^verbatim>\<open>Object.prototype\<close>. The callers treat
  \<^verbatim>\<open>null\<close>, where the read throws, before they call \<open>property\<close>.
\<close>

fun property :: "json \<Rightarrow> string \<Rightarrow> json option" where
  "property (JObj kvs) k = map_of kvs k"
| "property _ k = None"

fun typeof :: "json option \<Rightarrow> string" where
  "typeof None = ''undefined''"
| "typeof (Some JNull) = ''object''"
| "typeof (Some (JBool b)) = ''boolean''"
| "typeof (Some (JNum r)) = ''number''"
| "typeof (Some (JInfinity negative)) = ''number''"
| "typeof (Some (JStr s)) = ''string''"
| "typeof (Some (JArr xs)) = ''object''"
| "typeof (Some (JObj kvs)) = ''object''"

text \<open>\<open>truthy v\<close> is the condition \<^verbatim>\<open>if (v)\<close>; a parsed number is never NaN.\<close>

fun truthy :: "json option \<Rightarrow> bool" where
  "truthy None = False"
| "truthy (Some JNull) = False"
| "truthy (Some (JBool b)) = b"
| "truthy (Some (JNum r)) = (r \<noteq> 0)"
| "truthy (Some (JInfinity negative)) = True"
| "truthy (Some (JStr s)) = (s \<noteq> [])"
| "truthy (Some (JArr xs)) = True"
| "truthy (Some (JObj kvs)) = True"

text \<open>
  The object literals of the source are all arguments of \<^verbatim>\<open>JSON.stringify\<close>, which
  leaves out a property whose value is \<^verbatim>\<open>undefined\<close>: \<open>object_literal\<close> is the
  literal without those properties, in the order written.
\<close>

fun defined_fields :: "(string \<times> json option) list \<Rightarrow> (string \<times> json) list" where
  "defined_fields [] = []"
| "defined_fields ((k, None) # fields) = defined_fields fields"
| "defined_fields ((k, Some v) # fields) = (k, v) # defined_fields fields"

definition object_literal :: "(string \<times> json option) list \<Rightarrow> json" where
  "object_literal fields = JObj (defined_fields fields)"

text \<open>
  A JSON text is represented by the document it denotes, that is, by what \<^verbatim>\<open>JSON.parse\<close>
  makes of it. \<open>wire v\<close> is the document of the text \<^verbatim>\<open>JSON.stringify(v)\<close>: a number
  that is not finite is written \<^verbatim>\<open>null\<close>, at any depth; everything else is written as
  it is.
\<close>

primrec wire :: "json \<Rightarrow> json" where
  "wire JNull = JNull"
| "wire (JBool b) = JBool b"
| "wire (JNum r) = JNum r"
| "wire (JInfinity negative) = JNull"
| "wire (JStr s) = JStr s"
| "wire (JArr xs) = JArr (map wire xs)"
| "wire (JObj kvs) = JObj (map (map_prod id wire) kvs)"

section \<open>The environment: runtime and libraries\<close>

text \<open>
  What the relay calls and does not define: \<^verbatim>\<open>JSON.parse\<close> (\<open>None\<close> when it throws),
  the conversion to string of a number, array or object inside a template literal (it
  throws for an object whose \<^verbatim>\<open>toString\<close> is not callable), the query of
  \<^verbatim>\<open>url.parse(u, true)\<close>, whether \<^verbatim>\<open>JSON.stringify\<close> throws on a given value (a
  \<^verbatim>\<open>RangeError\<close>, when the value is nested deeper than the stack allows), and whether
  the call \<^verbatim>\<open>ws.send(JSON.stringify(p))\<close> throws on a given socket and value \<open>p\<close>, be
  it in \<^verbatim>\<open>JSON.stringify\<close> or in \<^verbatim>\<open>send\<close>.
\<close>

record 'w env =
  JSON_parse :: "string \<Rightarrow> json option"
  ToString :: "json \<Rightarrow> exn + string"
  url_query :: "string \<Rightarrow> json"
  stringify_throws :: "json \<Rightarrow> exn option"
  send_throws :: "'w \<Rightarrow> json \<Rightarrow> exn option"

text \<open>
  A call of \<^verbatim>\<open>JSON.stringify\<close> on its own (the two in the log messages of
  \<^verbatim>\<open>handleCaughtError\<close>): the exception, or the text.
\<close>

definition JSON_stringify :: "'w env \<Rightarrow> json \<Rightarrow> exn + json" where
  "JSON_stringify E v =
     (case stringify_throws E v of Some e \<Rightarrow> Inl e | None \<Rightarrow> Inr (wire v))"

text \<open>The value \<^verbatim>\<open>`${v}`\<close> of a template literal.\<close>

fun template :: "'w env \<Rightarrow> json option \<Rightarrow> exn + string" where
  "template E None = Inr ''undefined''"
| "template E (Some JNull) = Inr ''null''"
| "template E (Some (JBool b)) = Inr (if b then ''true'' else ''false'')"
| "template E (Some (JStr s)) = Inr s"
| "template E (Some v) = ToString E v"

section \<open>Effects\<close>

text \<open>
  A log entry keeps the template of the source as a constructor and the interpolated
  values as its arguments (for \<^verbatim>\<open>JSON.stringify(errorMessage)\<close>, the text). \<open>Send w p\<close>
  is one call \<^verbatim>\<open>w.send(JSON.stringify(p))\<close>; the call throws when \<open>send_throws\<close> says
  so, and otherwise delivers the text of \<open>p\<close>, which the peer reads as \<open>wire p\<close>.
\<close>

datatype logmsg =
    ExpectedText
  | WrongVersion string
  | ParseFailed string
  | NotMatchingProtocol
  | NoAppsConnected string
  | BroadcastFailed string string
  | HandlingFailed string string json
  | ReplyFailed string string json string

datatype 'w effect =
    is_LogError: LogError (the_log: logmsg)
  | is_LogWarn: LogWarn logmsg
  | is_Send: Send 'w json

definition PROTOCOL_VERSION :: json where
  "PROTOCOL_VERSION = JNum 2"

section \<open>Message codec\<close>

text \<open>
  \<open>binary\<close> is the condition \<^verbatim>\<open>if (binary)\<close>. Inside the \<^verbatim>\<open>try\<close>, reading
  \<^verbatim>\<open>message.version\<close> of \<^verbatim>\<open>null\<close> throws, and so may the template literal of the
  version log; both land in the \<^verbatim>\<open>catch\<close>.
\<close>

definition parseMessage :: "'w env \<Rightarrow> string \<Rightarrow> bool \<Rightarrow> 'w effect list \<times> json option" where
  "parseMessage E data binary =
     (if binary then ([LogError ExpectedText], None)
      else case JSON_parse E data of
        None \<Rightarrow> ([LogError (ParseFailed data)], None)
      | Some JNull \<Rightarrow> ([LogError (ParseFailed data)], None)
      | Some message \<Rightarrow>
          if property message ''version'' = Some PROTOCOL_VERSION then ([], Some message)
          else (case template E (property message ''version'') of
                  Inr v \<Rightarrow> ([LogError (WrongVersion v)], None)
                | Inl e \<Rightarrow> ([LogError (ParseFailed data)], None)))"

definition isBroadcast :: "json \<Rightarrow> bool" where
  "isBroadcast message \<longleftrightarrow>
     typeof (property message ''method'') = ''string'' \<and>
     property message ''id'' = None \<and>
     property message ''target'' = None"

definition isRequest :: "json \<Rightarrow> bool" where
  "isRequest message \<longleftrightarrow>
     typeof (property message ''method'') = ''string'' \<and>
     typeof (property message ''target'') = ''string''"

text \<open>
  \<^verbatim>\<open>typeof null\<close> is \<^verbatim>\<open>'object'\<close>, so an \<^verbatim>\<open>id\<close> of \<^verbatim>\<open>null\<close> passes the first conjunct
  and the read \<^verbatim>\<open>message.id.requestId\<close> throws.
\<close>

definition isResponse :: "json \<Rightarrow> exn + bool" where
  "isResponse message =
     (if typeof (property message ''id'') \<noteq> ''object'' then Inr False
      else case property message ''id'' of
        None \<Rightarrow> Inr False
      | Some JNull \<Rightarrow> Inl (null_read ''requestId'')
      | Some i \<Rightarrow>
          Inr (typeof (property i ''requestId'') \<noteq> ''undefined'' \<and>
               typeof (property i ''clientId'') = ''string'' \<and>
               (property message ''result'' \<noteq> None \<or> property message ''error'' \<noteq> None)))"

section \<open>Connection registry and relay state\<close>

text \<open>
  \<^verbatim>\<open>clients\<close> is a \<^verbatim>\<open>Map\<close>: an association list in insertion order. \<^verbatim>\<open>set\<close> replaces
  the value of a key that is present, in place, and appends a new key; \<^verbatim>\<open>delete\<close>
  removes the key; \<^verbatim>\<open>get\<close> is \<open>map_of\<close>; \<^verbatim>\<open>size\<close> is \<open>length\<close>.
\<close>

record 'w client =
  ws :: 'w
  url :: string

fun Map_set :: "('k \<times> 'v) list \<Rightarrow> 'k \<Rightarrow> 'v \<Rightarrow> ('k \<times> 'v) list" where
  "Map_set [] k v = [(k, v)]"
| "Map_set ((k', v') # kvs) k v =
     (if k' = k then (k, v) # kvs else (k', v') # Map_set kvs k v)"

definition Map_delete :: "('k \<times> 'v) list \<Rightarrow> 'k \<Rightarrow> ('k \<times> 'v) list" where
  "Map_delete kvs k = filter (\<lambda>(k', v). k' \<noteq> k) kvs"

text \<open>
  The state of one \<^verbatim>\<open>attachToServer\<close>: the registry, the counter, and for each socket
  the closure installed as its \<^verbatim>\<open>onmessage\<close>, \<^verbatim>\<open>onclose\<close> and \<^verbatim>\<open>onerror\<close> handler. A
  closure is determined by the \<^verbatim>\<open>clientId\<close> it captured (its \<^verbatim>\<open>clientWs\<close> is the socket
  it is installed on); \<open>None\<close> is no handler.
\<close>

record 'w relay =
  clients :: "(string \<times> 'w client) list"
  nextClientId :: nat
  onmessage :: "'w \<Rightarrow> string option"
  onclose :: "'w \<Rightarrow> string option"
  onerror :: "'w \<Rightarrow> string option"

text \<open>
  \<^verbatim>\<open>nextClientId\<close> is a double. \<^verbatim>\<open>n + 1\<close> is exact below \<open>2^53\<close>; at \<open>2^53\<close> the sum is
  not representable and rounds down to \<open>2^53\<close>, so the counter stays there. The string of
  such a number in a template literal is its decimal numeral.
\<close>

definition increment :: "nat \<Rightarrow> nat" where
  "increment n = (if n < 9007199254740992 then n + 1 else n)"

definition digit :: "nat \<Rightarrow> char" where
  "digit d = ''0123456789'' ! d"

function Number_toString :: "nat \<Rightarrow> string" where
  "Number_toString n =
     (if n < 10 then [digit n] else Number_toString (n div 10) @ [digit (n mod 10)])"
  by pat_completeness auto
termination
  by (relation "measure id") auto

declare Number_toString.simps [simp del]

definition attachToServer :: "'w relay" where
  "attachToServer =
     \<lparr>clients = [], nextClientId = 0,
      onmessage = (\<lambda>w. None), onclose = (\<lambda>w. None), onerror = (\<lambda>w. None)\<rparr>"

section \<open>Relay core\<close>

text \<open>
  An outcome is the effects performed and the exception thrown, if any. A call of
  \<^verbatim>\<open>ws.send\<close> is recorded whether it throws or not.
\<close>

type_synonym 'w outcome = "'w effect list \<times> exn option"

definition ws_send :: "'w env \<Rightarrow> 'w \<Rightarrow> json \<Rightarrow> 'w outcome" where
  "ws_send E w payload = ([Send w payload], send_throws E w payload)"

text \<open>The registry has string keys only, so \<^verbatim>\<open>get\<close> of another value finds nothing.\<close>

definition getClientWs :: "'w env \<Rightarrow> 'w relay \<Rightarrow> json option \<Rightarrow> exn + 'w" where
  "getClientWs E s clientId =
     (case (case clientId of Some (JStr k) \<Rightarrow> map_of (clients s) k | _ \<Rightarrow> None) of
        Some client \<Rightarrow> Inr (ws client)
      | None \<Rightarrow>
          (case template E clientId of
             Inl e \<Rightarrow> Inl e
           | Inr t \<Rightarrow>
               Inl (Error (''could not find id '' @ [CHR 0x22] @ t @ [CHR 0x22] @
                           '' while forwarding request''))))"

fun broadcast_loop ::
  "'w env \<Rightarrow> string option \<Rightarrow> json \<Rightarrow> (string \<times> 'w client) list \<Rightarrow> 'w effect list" where
  "broadcast_loop E broadcasterId forwarded [] = []"
| "broadcast_loop E broadcasterId forwarded ((otherId, other) # rest) =
     (if Some otherId \<noteq> broadcasterId
      then Send (ws other) forwarded #
           (case send_throws E (ws other) forwarded of
              None \<Rightarrow> []
            | Some e \<Rightarrow> [LogError (BroadcastFailed otherId (exn_toString e))])
      else []) @
     broadcast_loop E broadcasterId forwarded rest"

text \<open>The local constant \<^verbatim>\<open>forwarded\<close> of \<^verbatim>\<open>handleSendBroadcast\<close>.\<close>

definition forwarded :: "json \<Rightarrow> json" where
  "forwarded message =
     object_literal
       [(''version'', Some PROTOCOL_VERSION),
        (''method'', property message ''method''),
        (''params'', property message ''params'')]"

definition handleSendBroadcast ::
  "'w env \<Rightarrow> 'w relay \<Rightarrow> string option \<Rightarrow> json \<Rightarrow> 'w outcome" where
  "handleSendBroadcast E s broadcasterId message =
     (if length (clients s) = 0
      then (case template E (property message ''method'') of
              Inl e \<Rightarrow> ([], Some e)
            | Inr m \<Rightarrow>
                (LogWarn (NoAppsConnected m) #
                 broadcast_loop E broadcasterId (forwarded message) (clients s), None))
      else (broadcast_loop E broadcasterId (forwarded message) (clients s), None))"

text \<open>The local constant \<^verbatim>\<open>errorMessage\<close> of \<^verbatim>\<open>handleCaughtError\<close>.\<close>

definition errorMessage :: "json \<Rightarrow> json" where
  "errorMessage message =
     (let defined = (\<lambda>v. Some (JStr (if v = None then ''undefined'' else ''defined'')))
      in object_literal
           [(''id'', property message ''id''),
            (''method'', property message ''method''),
            (''target'', property message ''target''),
            (''error'', defined (property message ''error'')),
            (''params'', defined (property message ''params'')),
            (''result'', defined (property message ''result''))])"

text \<open>
  \<^verbatim>\<open>JSON.stringify(errorMessage)\<close> is evaluated inside the argument of
  \<^verbatim>\<open>logger.error\<close>, in the first branch outside any \<^verbatim>\<open>try\<close> and in the second inside
  the \<^verbatim>\<open>catch\<close>: when it throws, nothing is logged and the exception leaves
  \<^verbatim>\<open>handleCaughtError\<close>.
\<close>

definition handleCaughtError ::
  "'w env \<Rightarrow> string \<Rightarrow> 'w \<Rightarrow> json \<Rightarrow> string \<Rightarrow> 'w outcome" where
  "handleCaughtError E clientId clientWs message error =
     (if property message ''id'' = None
      then (case JSON_stringify E (errorMessage message) of
              Inl e \<Rightarrow> ([], Some e)
            | Inr doc \<Rightarrow> ([LogError (HandlingFailed clientId error doc)], None))
      else (let reply = object_literal
                  [(''version'', Some PROTOCOL_VERSION),
                   (''error'', Some (JStr error)),
                   (''id'', property message ''id'')]
            in case send_throws E clientWs reply of
                 None \<Rightarrow> ([Send clientWs reply], None)
               | Some e \<Rightarrow>
                   (case JSON_stringify E (errorMessage message) of
                      Inl e' \<Rightarrow> ([Send clientWs reply], Some e')
                    | Inr doc \<Rightarrow>
                        ([Send clientWs reply,
                          LogError (ReplyFailed clientId error doc (exn_toString e))],
                         None))))"

text \<open>
  The peers object gets one property per registry entry that passes the test, in
  registry order (the keys of a \<^verbatim>\<open>Map\<close> are distinct).
\<close>

definition getpeers :: "'w env \<Rightarrow> 'w relay \<Rightarrow> string \<Rightarrow> json" where
  "getpeers E s clientId =
     JObj (map (\<lambda>(otherId, otherClient). (otherId, url_query E (url otherClient)))
             (filter (\<lambda>(otherId, otherClient). clientId \<noteq> otherId \<and> url otherClient \<noteq> [])
                (clients s)))"

definition handleServerRequest ::
  "'w env \<Rightarrow> 'w relay \<Rightarrow> string \<Rightarrow> 'w \<Rightarrow> json \<Rightarrow> 'w outcome" where
  "handleServerRequest E s clientId clientWs message =
     (let reply = (\<lambda>result. ws_send E clientWs (object_literal
            [(''version'', Some PROTOCOL_VERSION),
             (''result'', Some result),
             (''id'', property message ''id'')]))
      in if property message ''method'' = Some (JStr ''getid'') then reply (JStr clientId)
         else if property message ''method'' = Some (JStr ''getpeers'')
         then reply (getpeers E s clientId)
         else (case template E (property message ''method'') of
                 Inl e \<Rightarrow> ([], Some e)
               | Inr m \<Rightarrow> ([], Some (Error (''unknown method: '' @ m)))))"

definition forwardRequest :: "'w env \<Rightarrow> 'w relay \<Rightarrow> string \<Rightarrow> json \<Rightarrow> 'w outcome" where
  "forwardRequest E s clientId message =
     (case getClientWs E s (property message ''target'') of
        Inl e \<Rightarrow> ([], Some e)
      | Inr w \<Rightarrow>
          ws_send E w (object_literal
            [(''version'', Some PROTOCOL_VERSION),
             (''method'', property message ''method''),
             (''params'', property message ''params''),
             (''id'', (case property message ''id'' of
                         None \<Rightarrow> None
                       | Some i \<Rightarrow>
                           Some (JObj [(''requestId'', i), (''clientId'', JStr clientId)])))]))"

definition forwardResponse :: "'w env \<Rightarrow> 'w relay \<Rightarrow> json \<Rightarrow> 'w outcome" where
  "forwardResponse E s message =
     (if \<not> truthy (property message ''id'') then ([], None)
      else case property message ''id'' of
        None \<Rightarrow> ([], None)
      | Some i \<Rightarrow>
          (case getClientWs E s (property i ''clientId'') of
             Inl e \<Rightarrow> ([], Some e)
           | Inr w \<Rightarrow>
               ws_send E w (object_literal
                 [(''version'', Some PROTOCOL_VERSION),
                  (''result'', property message ''result''),
                  (''error'', property message ''error''),
                  (''id'', property i ''requestId'')])))"

definition onCloseHandler :: "'w relay \<Rightarrow> string \<Rightarrow> 'w \<Rightarrow> 'w relay" where
  "onCloseHandler s clientId clientWs =
     s\<lparr>onmessage := (onmessage s)(clientWs := None),
       clients := Map_delete (clients s) clientId\<rparr>"

text \<open>The body of the \<^verbatim>\<open>try\<close> block of the message handler.\<close>

definition route :: "'w env \<Rightarrow> 'w relay \<Rightarrow> string \<Rightarrow> 'w \<Rightarrow> json \<Rightarrow> 'w outcome" where
  "route E s clientId clientWs message =
     (if isBroadcast message then handleSendBroadcast E s (Some clientId) message
      else if isRequest message then
        (if property message ''target'' = Some (JStr ''server'')
         then handleServerRequest E s clientId clientWs message
         else forwardRequest E s clientId message)
      else case isResponse message of
        Inl e \<Rightarrow> ([], Some e)
      | Inr True \<Rightarrow> forwardResponse E s message
      | Inr False \<Rightarrow> ([], Some (Error ''Invalid message, did not match the protocol'')))"

text \<open>
  The handler installed as \<^verbatim>\<open>clientWs.onmessage\<close>; it leaves the state as it is. An
  exception of \<^verbatim>\<open>handleCaughtError\<close>, raised inside the \<^verbatim>\<open>catch\<close> block, leaves the
  handler.
\<close>

definition clientWs_onmessage ::
  "'w env \<Rightarrow> 'w relay \<Rightarrow> string \<Rightarrow> 'w \<Rightarrow> string \<Rightarrow> bool \<Rightarrow> 'w outcome" where
  "clientWs_onmessage E s clientId clientWs data binary =
     (case parseMessage E data binary of
        (logs, None) \<Rightarrow> (logs @ [LogError NotMatchingProtocol], None)
      | (logs, Some message) \<Rightarrow>
          (case route E s clientId clientWs message of
             (effects, None) \<Rightarrow> (logs @ effects, None)
           | (effects, Some e) \<Rightarrow>
               (case handleCaughtError E clientId clientWs message (exn_toString e) of
                  (handled, uncaught) \<Rightarrow> (logs @ effects @ handled, uncaught))))"

text \<open>
  The \<^verbatim>\<open>connection\<close> callback, with \<^verbatim>\<open>req.url\<close> (\<open>None\<close> when undefined). It returns the
  new state and the identity it assigned, if it accepted the connection.
\<close>

definition connection :: "'w relay \<Rightarrow> 'w \<Rightarrow> string option \<Rightarrow> 'w relay \<times> string option" where
  "connection s clientWs req_url =
     (case req_url of
        None \<Rightarrow> (s, None)
      | Some u \<Rightarrow>
          if u = [] then (s, None)
          else (let clientId = ''client#'' @ Number_toString (nextClientId s)
                in (s\<lparr>nextClientId := increment (nextClientId s),
                      clients := Map_set (clients s) clientId \<lparr>ws = clientWs, url = u\<rparr>,
                      onclose := (onclose s)(clientWs \<mapsto> clientId),
                      onerror := (onerror s)(clientWs \<mapsto> clientId),
                      onmessage := (onmessage s)(clientWs \<mapsto> clientId)\<rparr>,
                    Some clientId)))"

text \<open>The control surface returned to the host.\<close>

definition broadcast :: "'w env \<Rightarrow> 'w relay \<Rightarrow> string \<Rightarrow> json option \<Rightarrow> 'w outcome" where
  "broadcast E s method params =
     handleSendBroadcast E s None
       (JObj ((''method'', JStr method) #
              (case params of None \<Rightarrow> [] | Some p \<Rightarrow> [(''params'', p)])))"

definition isDebuggerConnected :: bool where
  "isDebuggerConnected = True"

section \<open>Events\<close>

text \<open>
  The events the socket library delivers: a new connection, and on a socket a close, an
  error or a message frame. An event on a socket runs the handler installed there, if
  any. Each event is handled to completion before the next. A step gives the new state,
  the effects, and the exception that left the handler uncaught, if any.
\<close>

datatype 'w event =
    Connection 'w "string option"
  | Close 'w
  | Err 'w
  | Message 'w string bool

fun step :: "'w env \<Rightarrow> 'w relay \<Rightarrow> 'w event \<Rightarrow> 'w relay \<times> 'w outcome" where
  "step E s (Connection w req_url) = (fst (connection s w req_url), [], None)"
| "step E s (Close w) =
     (case onclose s w of
        None \<Rightarrow> (s, [], None)
      | Some clientId \<Rightarrow> (onCloseHandler s clientId w, [], None))"
| "step E s (Err w) =
     (case onerror s w of
        None \<Rightarrow> (s, [], None)
      | Some clientId \<Rightarrow> (onCloseHandler s clientId w, [], None))"
| "step E s (Message w data binary) =
     (case onmessage s w of
        None \<Rightarrow> (s, [], None)
      | Some clientId \<Rightarrow> (s, clientWs_onmessage E s clientId w data binary))"

fun run :: "'w env \<Rightarrow> 'w relay \<Rightarrow> 'w event list \<Rightarrow> 'w relay" where
  "run E s [] = s"
| "run E s (ev # evs) = run E (fst (step E s ev)) evs"

text \<open>The identities assigned during a run, in the order of acceptance.\<close>

fun assigned :: "'w relay \<Rightarrow> 'w event \<Rightarrow> string list" where
  "assigned s (Connection w req_url) =
     (case snd (connection s w req_url) of None \<Rightarrow> [] | Some clientId \<Rightarrow> [clientId])"
| "assigned s _ = []"

fun identities :: "'w env \<Rightarrow> 'w relay \<Rightarrow> 'w event list \<Rightarrow> string list" where
  "identities E s [] = []"
| "identities E s (ev # evs) = assigned s ev @ identities E (fst (step E s ev)) evs"

section \<open>Decimal numerals\<close>

text \<open>The number a decimal numeral denotes: the inverse of \<open>Number_toString\<close>.\<close>

definition digit_value :: "char \<Rightarrow> nat" where
  "digit_value c = of_char c - 48"

definition decimal_value :: "string \<Rightarrow> nat" where
  "decimal_value s = foldl (\<lambda>acc c. 10 * acc + digit_value c) 0 s"

section \<open>A concrete scenario\<close>

text \<open>
  An environment and a run on which the theorems below are instantiated. Sockets are
  numbers. Three clients connect; \<open>example_frames\<close> is the table of the frames that
  parse, every other text being a syntax error; no \<^verbatim>\<open>JSON.stringify\<close> throws, and in
  \<open>failing_env\<close> every send on socket 1 throws.
\<close>

definition request_msg :: json where
  "request_msg =
     JObj [(''version'', JNum 2), (''method'', JStr ''m''), (''target'', JStr ''client#1''),
           (''id'', JStr ''r1'')]"

definition response_msg :: json where
  "response_msg =
     JObj [(''version'', JNum 2), (''result'', JNum 42),
           (''id'', JObj [(''requestId'', JStr ''r1''), (''clientId'', JStr ''client#0'')])]"

definition ambiguous_msg :: json where
  "ambiguous_msg =
     JObj [(''version'', JNum 2), (''method'', JStr ''m''), (''target'', JStr ''client#1''),
           (''id'', JObj [(''requestId'', JStr ''r1''), (''clientId'', JStr ''client#2'')]),
           (''result'', JNum 42)]"

definition broadcast_msg :: json where
  "broadcast_msg =
     JObj [(''version'', JNum 2), (''method'', JStr ''reload''), (''params'', JObj []),
           (''from'', JStr ''me'')]"

definition getpeers_msg :: json where
  "getpeers_msg =
     JObj [(''version'', JNum 2), (''method'', JStr ''getpeers''), (''target'', JStr ''server''),
           (''id'', JStr ''q'')]"

definition unknown_method_msg :: json where
  "unknown_method_msg =
     JObj [(''version'', JNum 2), (''method'', JStr ''nope''), (''target'', JStr ''server''),
           (''id'', JStr ''u'')]"

definition unresolved_msg :: json where
  "unresolved_msg =
     JObj [(''version'', JNum 2), (''method'', JStr ''m''), (''target'', JStr ''client#9''),
           (''id'', JNum 7)]"

definition invalid_msg :: json where
  "invalid_msg = JObj [(''version'', JNum 2)]"

definition request_noid_msg :: json where
  "request_noid_msg =
     JObj [(''version'', JNum 2), (''method'', JStr ''m''), (''target'', JStr ''client#1'')]"

definition reply_noid_msg :: json where
  "reply_noid_msg = JObj [(''version'', JNum 2), (''result'', JNum 42)]"

definition old_version_msg :: json where
  "old_version_msg = JObj [(''version'', JNum 1), (''method'', JStr ''reload'')]"

definition request_text :: string where
  \<open>request_text = ''{"version":2,"method":"m","target":"client#1","id":"r1"}''\<close>

definition response_text :: string where
  \<open>response_text = ''{"version":2,"result":42,"id":{"requestId":"r1","clientId":"client#0"}}''\<close>

definition unknown_method_text :: string where
  \<open>unknown_method_text = ''{"version":2,"method":"nope","target":"server","id":"u"}''\<close>

definition unresolved_text :: string where
  \<open>unresolved_text = ''{"version":2,"method":"m","target":"client#9","id":7}''\<close>

definition invalid_text :: string where
  \<open>invalid_text = ''{"version":2}''\<close>

definition old_version_text :: string where
  \<open>old_version_text = ''{"version":1,"method":"reload"}''\<close>

text \<open>
  A frame whose \<^verbatim>\<open>id\<close> is a numeral beyond the range of a double, and a frame whose
  \<^verbatim>\<open>method\<close> is 1001 arrays deep: \<open>nest n\<close> is \<^verbatim>\<open>[[...[]...]]\<close> with \<open>n + 1\<close> pairs
  of brackets. Neither is a Broadcast, a Request or a Response.
\<close>

definition nonfinite_id_msg :: json where
  "nonfinite_id_msg = JObj [(''version'', JNum 2), (''id'', JInfinity False)]"

definition nonfinite_id_text :: string where
  \<open>nonfinite_id_text = ''{"version":2,"id":1e309}''\<close>

primrec nest :: "nat \<Rightarrow> json" where
  "nest 0 = JArr []"
| "nest (Suc n) = JArr [nest n]"

definition deep_msg :: json where
  "deep_msg = JObj [(''version'', JNum 2), (''method'', nest 1000)]"

definition deep_text :: string where
  \<open>deep_text =
     ''{"version":2,"method":'' @ replicate 1001 (CHR ''['') @ replicate 1001 (CHR '']'') @ ''}''\<close>

definition example_frames :: "(string \<times> json) list" where
  "example_frames =
     [(request_text, request_msg), (response_text, response_msg),
      (unknown_method_text, unknown_method_msg), (unresolved_text, unresolved_msg),
      (invalid_text, invalid_msg), (old_version_text, old_version_msg),
      (nonfinite_id_text, nonfinite_id_msg), (''null'', JNull)]"

text \<open>The number of nested arrays and objects around the innermost value.\<close>

primrec depth :: "json \<Rightarrow> nat" where
  "depth JNull = 0"
| "depth (JBool b) = 0"
| "depth (JNum r) = 0"
| "depth (JInfinity negative) = 0"
| "depth (JStr s) = 0"
| "depth (JArr xs) = Suc (fold max (map depth xs) 0)"
| "depth (JObj kvs) = Suc (fold max (map snd (map (map_prod id depth) kvs)) 0)"

definition example_env :: "nat env" where
  "example_env =
     \<lparr>JSON_parse = map_of example_frames,
      ToString = (\<lambda>v. if v = JNum 1 then Inr ''1'' else Inr ''[object Object]''),
      url_query = (\<lambda>u. if u = ''/debugger-proxy?role=app'' then JObj [(''role'', JStr ''app'')]
                        else if u = ''/debugger-proxy?role=debugger''
                        then JObj [(''role'', JStr ''debugger'')]
                        else JObj []),
      stringify_throws = (\<lambda>v. None),
      send_throws = (\<lambda>w payload. None)\<rparr>"

definition failing_env :: "nat env" where
  "failing_env =
     example_env\<lparr>send_throws :=
       (\<lambda>w payload. if w = 1 then Some (Error ''WebSocket is not open'') else None)\<rparr>"

text \<open>
  An engine whose \<^verbatim>\<open>JSON.stringify\<close> exhausts the stack on a value nested deeper than
  1000 levels, and which parses \<open>deep_text\<close>.
\<close>

definition deep_env :: "nat env" where
  "deep_env =
     example_env\<lparr>JSON_parse := map_of ((deep_text, deep_msg) # example_frames),
       stringify_throws :=
         (\<lambda>v. if 1000 < depth v then Some (RangeError ''Maximum call stack size exceeded'')
              else None)\<rparr>"

definition example_events :: "nat event list" where
  "example_events =
     [Connection 0 (Some ''/debugger-proxy?role=app''),
      Connection 1 (Some ''/debugger-proxy?role=debugger''),
      Connection 2 (Some ''/debugger-proxy?role=debugger'')]"

definition example_relay :: "nat relay" where
  "example_relay = run example_env attachToServer example_events"

text \<open>A run with a close, and two connections that are not accepted, in between.\<close>

definition churn_events :: "nat event list" where
  "churn_events =
     [Connection 0 (Some ''/debugger-proxy?role=app''),
      Connection 1 (Some ''/debugger-proxy?role=debugger''),
      Close 0,
      Connection 5 None,
      Connection 6 (Some []),
      Err 0,
      Connection 2 (Some ''/debugger-proxy?role=app'')]"

section \<open>Facts about the codec\<close>

lemma isRequest_not_isBroadcast: "isRequest m \<Longrightarrow> \<not> isBroadcast m"
  by (auto simp: isRequest_def isBroadcast_def)

lemma isBroadcast_not_isResponse: "isBroadcast m \<Longrightarrow> isResponse m = Inr False"
  by (simp add: isBroadcast_def isResponse_def)

lemma typeof_string_iff: "typeof v = ''string'' \<longleftrightarrow> (\<exists>s. v = Some (JStr s))"
  by (cases v rule: typeof.cases) auto

lemma typeof_undefined_iff: "typeof v = ''undefined'' \<longleftrightarrow> v = None"
  by (cases v rule: typeof.cases) auto

lemma parse_version2:
  "JSON_parse E data = Some m \<Longrightarrow> property m ''version'' = Some (JNum 2) \<Longrightarrow>
   parseMessage E data False = ([], Some m)"
  by (cases m) (simp_all add: parseMessage_def PROTOCOL_VERSION_def)

lemma isResponse_no_id: "property r ''id'' = None \<Longrightarrow> isResponse r = Inr False"
  by (simp add: isResponse_def)

lemma map_of_map_prod:
  "map_of (map (map_prod id f) kvs) k = map_option f (map_of kvs k)"
  by (induction kvs) auto

lemma property_wire: "property (wire v) k = map_option wire (property v k)"
  by (cases v) (simp_all add: map_of_map_prod)

section \<open>The concrete scenario, evaluated\<close>

lemma Number_toString_digit: "n < 10 \<Longrightarrow> Number_toString n = [digit n]"
  by (simp add: Number_toString.simps [of n])

lemma example_relay_eq:
  "example_relay =
     \<lparr>clients =
        [(''client#0'', \<lparr>ws = 0, url = ''/debugger-proxy?role=app''\<rparr>),
         (''client#1'', \<lparr>ws = 1, url = ''/debugger-proxy?role=debugger''\<rparr>),
         (''client#2'', \<lparr>ws = 2, url = ''/debugger-proxy?role=debugger''\<rparr>)],
      nextClientId = 3,
      onmessage = [0 \<mapsto> ''client#0'', 1 \<mapsto> ''client#1'', 2 \<mapsto> ''client#2''],
      onclose = [0 \<mapsto> ''client#0'', 1 \<mapsto> ''client#1'', 2 \<mapsto> ''client#2''],
      onerror = [0 \<mapsto> ''client#0'', 1 \<mapsto> ''client#1'', 2 \<mapsto> ''client#2'']\<rparr>"
  by (simp add: example_relay_def example_events_def attachToServer_def connection_def Let_def
        increment_def Number_toString_digit digit_def)

lemma example_parse:
  "JSON_parse example_env request_text = Some request_msg"
  "JSON_parse example_env response_text = Some response_msg"
  "JSON_parse example_env unknown_method_text = Some unknown_method_msg"
  "JSON_parse example_env unresolved_text = Some unresolved_msg"
  "JSON_parse example_env invalid_text = Some invalid_msg"
  "JSON_parse example_env old_version_text = Some old_version_msg"
  "JSON_parse example_env nonfinite_id_text = Some nonfinite_id_msg"
  "JSON_parse example_env ''null'' = Some JNull"
  "JSON_parse example_env ''{'' = None"
  by (simp_all add: example_env_def example_frames_def request_text_def response_text_def
        unknown_method_text_def unresolved_text_def invalid_text_def old_version_text_def
        nonfinite_id_text_def)

lemma failing_parse: "JSON_parse failing_env = JSON_parse example_env"
  by (simp add: failing_env_def)

lemma example_sends: "send_throws example_env w p = None"
  by (simp add: example_env_def)

lemma example_stringify: "stringify_throws example_env v = None"
  by (simp add: example_env_def)

lemma failing_stringify: "stringify_throws failing_env v = None"
  by (simp add: failing_env_def example_env_def)

lemma deep_parse: "JSON_parse deep_env deep_text = Some deep_msg"
  by (simp add: deep_env_def)

lemma deep_stringify:
  "stringify_throws deep_env v =
     (if 1000 < depth v then Some (RangeError ''Maximum call stack size exceeded'') else None)"
  by (simp add: deep_env_def)

lemma typeof_nest: "typeof (Some (nest n)) = ''object''"
  by (cases n) simp_all

lemma depth_nest: "depth (nest n) = Suc n"
  by (induction n) simp_all

lemma failing_sends:
  "send_throws failing_env w p = (if w = 1 then Some (Error ''WebSocket is not open'') else None)"
  by (simp add: failing_env_def)

lemma churn_identities:
  "identities example_env attachToServer churn_events = [''client#0'', ''client#1'', ''client#2'']"
  by (simp add: churn_events_def attachToServer_def connection_def Let_def increment_def
        Number_toString_digit digit_def onCloseHandler_def Map_delete_def)

lemma churn_clients:
  "map fst (clients (run example_env attachToServer churn_events)) = [''client#1'', ''client#2'']"
  by (simp add: churn_events_def attachToServer_def connection_def Let_def increment_def
        Number_toString_digit digit_def onCloseHandler_def Map_delete_def)

section \<open>Parsing\<close>

text \<open>
  C5: a frame is rejected exactly when it is binary, when \<^verbatim>\<open>JSON.parse\<close> throws, or when
  the \<^verbatim>\<open>version\<close> of the decoded value is not the number 2 (a decoded \<^verbatim>\<open>null\<close> has no
  version). A rejection logs one error in \<open>parseMessage\<close>, the handler adds its own
  and routes nothing; an accepted frame is the decoded value itself, with no log.
\<close>

theorem parse_rejection:
  "(snd (parseMessage E data binary) = None \<longleftrightarrow>
      binary \<or> JSON_parse E data = None \<or>
      (\<exists>decoded. JSON_parse E data = Some decoded \<and>
                 property decoded ''version'' \<noteq> Some (JNum 2))) \<and>
   (snd (parseMessage E data binary) = None \<longrightarrow>
      (\<exists>l. fst (parseMessage E data binary) = [LogError l]) \<and>
      (\<exists>l. clientWs_onmessage E s clientId w data binary =
             ([LogError l, LogError NotMatchingProtocol], None))) \<and>
   (\<forall>message. snd (parseMessage E data binary) = Some message \<longrightarrow>
      JSON_parse E data = Some message \<and> fst (parseMessage E data binary) = [])"
proof -
  have a: "snd (parseMessage E data binary) = None \<longleftrightarrow>
      binary \<or> JSON_parse E data = None \<or>
      (\<exists>decoded. JSON_parse E data = Some decoded \<and>
                 property decoded ''version'' \<noteq> Some (JNum 2))"
    by (auto simp: parseMessage_def PROTOCOL_VERSION_def
          split: option.splits json.splits sum.splits)
  have b: "\<exists>l. parseMessage E data binary = ([LogError l], None)"
    if "snd (parseMessage E data binary) = None"
    using that
    by (auto simp: parseMessage_def split: option.splits json.splits sum.splits if_splits)
  have c: "JSON_parse E data = Some message \<and> fst (parseMessage E data binary) = []"
    if "snd (parseMessage E data binary) = Some message" for message
    using that
    by (auto simp: parseMessage_def split: option.splits json.splits sum.splits if_splits)
  have d: "\<exists>l. clientWs_onmessage E s clientId w data binary =
             ([LogError l, LogError NotMatchingProtocol], None)"
    if "snd (parseMessage E data binary) = None"
    using b [OF that] by (auto simp: clientWs_onmessage_def)
  show ?thesis using a b c d by (metis fst_conv)
qed

theorem parse_rejection_witness:
  "parseMessage example_env old_version_text False = ([LogError (WrongVersion ''1'')], None) \<and>
   clientWs_onmessage example_env example_relay ''client#0'' 0 old_version_text False =
     ([LogError (WrongVersion ''1''), LogError NotMatchingProtocol], None) \<and>
   parseMessage example_env ''{'' False = ([LogError (ParseFailed ''{'')], None) \<and>
   parseMessage example_env ''null'' False = ([LogError (ParseFailed ''null'')], None) \<and>
   parseMessage example_env invalid_text True = ([LogError ExpectedText], None) \<and>
   parseMessage example_env invalid_text False = ([], Some invalid_msg)"
proof -
  have pv: "property old_version_msg ''version'' = Some (JNum 1)"
    "property invalid_msg ''version'' = Some (JNum 2)"
    by (simp_all add: old_version_msg_def invalid_msg_def)
  have ts: "ToString example_env (JNum 1) = Inr ''1''"
    by (simp add: example_env_def)
  have 1: "parseMessage example_env old_version_text False = ([LogError (WrongVersion ''1'')], None)"
    by (simp add: parseMessage_def example_parse pv ts PROTOCOL_VERSION_def old_version_msg_def)
  have rej: "snd (parseMessage example_env old_version_text False) = None"
    using parse_rejection [of example_env old_version_text False] example_parse(6) pv(1)
    by simp
  have 2: "clientWs_onmessage example_env example_relay ''client#0'' 0 old_version_text False =
     ([LogError (WrongVersion ''1''), LogError NotMatchingProtocol], None)"
    by (simp add: clientWs_onmessage_def 1)
  have 3: "parseMessage example_env ''{'' False = ([LogError (ParseFailed ''{'')], None)"
    "parseMessage example_env ''null'' False = ([LogError (ParseFailed ''null'')], None)"
    "parseMessage example_env invalid_text True = ([LogError ExpectedText], None)"
    by (simp_all add: parseMessage_def example_parse)
  have 4: "parseMessage example_env invalid_text False = ([], Some invalid_msg)"
    using example_parse(5) pv(2) by (rule parse_version2)
  show ?thesis using rej 1 2 3 4 by simp
qed

section \<open>Classification and routing\<close>

text \<open>
  C2: the handler tests Broadcast, then Request, then Response, and the first match
  decides. A Broadcast is neither of the others; a message with a string \<^verbatim>\<open>method\<close> and
  a string \<^verbatim>\<open>target\<close> takes the request path whatever its \<^verbatim>\<open>id\<close>, \<^verbatim>\<open>result\<close> and
  \<^verbatim>\<open>error\<close> are; the response test is reached only when both earlier tests fail.
\<close>

theorem classification_precedence:
  "(isBroadcast m \<longrightarrow>
      \<not> isRequest m \<and> isResponse m = Inr False \<and>
      route E s clientId w m = handleSendBroadcast E s (Some clientId) m) \<and>
   (isRequest m \<longrightarrow>
      route E s clientId w m =
        (if property m ''target'' = Some (JStr ''server'')
         then handleServerRequest E s clientId w m
         else forwardRequest E s clientId m)) \<and>
   (\<not> isBroadcast m \<and> \<not> isRequest m \<longrightarrow>
      route E s clientId w m =
        (case isResponse m of
           Inl e \<Rightarrow> ([], Some e)
         | Inr True \<Rightarrow> forwardResponse E s m
         | Inr False \<Rightarrow> ([], Some (Error ''Invalid message, did not match the protocol''))))"
  using isRequest_not_isBroadcast [of m] isBroadcast_not_isResponse [of m]
  by (auto simp: route_def)

theorem classification_precedence_witness:
  "isRequest ambiguous_msg \<and> isResponse ambiguous_msg = Inr True \<and>
   route example_env example_relay ''client#0'' 0 ambiguous_msg =
     ([Send 1 (JObj [(''version'', JNum 2), (''method'', JStr ''m''),
                     (''id'', JObj [(''requestId'',
                                     JObj [(''requestId'', JStr ''r1''),
                                           (''clientId'', JStr ''client#2'')]),
                                    (''clientId'', JStr ''client#0'')])])], None) \<and>
   forwardResponse example_env example_relay ambiguous_msg =
     ([Send 2 (JObj [(''version'', JNum 2), (''result'', JNum 42), (''id'', JStr ''r1'')])], None) \<and>
   isBroadcast broadcast_msg \<and> \<not> isRequest broadcast_msg \<and>
   isResponse broadcast_msg = Inr False"
proof -
  have rq: "isRequest ambiguous_msg"
    by (simp add: ambiguous_msg_def isRequest_def)
  have rs: "isResponse ambiguous_msg = Inr True"
    by (simp add: ambiguous_msg_def isResponse_def)
  have bc: "isBroadcast broadcast_msg"
    by (simp add: broadcast_msg_def isBroadcast_def)
  have "route example_env example_relay ''client#0'' 0 ambiguous_msg =
          forwardRequest example_env example_relay ''client#0'' ambiguous_msg"
    using classification_precedence [of ambiguous_msg example_env example_relay "''client#0''" 0] rq
    by (simp add: ambiguous_msg_def)
  moreover have "\<not> isRequest broadcast_msg \<and> isResponse broadcast_msg = Inr False"
    using classification_precedence [of broadcast_msg example_env example_relay "''client#0''" 0] bc
    by simp
  ultimately show ?thesis
    using rq rs bc
    by (simp add: ambiguous_msg_def forwardRequest_def forwardResponse_def getClientWs_def
          ws_send_def example_relay_eq example_sends object_literal_def PROTOCOL_VERSION_def)
qed

text \<open>
  C1: client \<open>A\<close> sends a request with identifier \<open>rid\<close> to a registered peer
  \<open>B\<close>, where \<open>rid\<close> is a value that JSON writes as it is (a string, for one). The
  text \<open>B\<close> is sent has the method and the identifier
  \<^verbatim>\<open>{requestId: rid, clientId: A}\<close>. When \<open>B\<close> answers with the identifier it read and
  a result or an error, the text \<open>A\<close> is sent has the identifier \<open>rid\<close> again, with
  the answer's result and error as JSON writes them.
\<close>

theorem round_trip_correlation:
  assumes req: "JSON_parse E data = Some m" "property m ''version'' = Some (JNum 2)"
      "property m ''method'' = Some (JStr meth)" "property m ''target'' = Some (JStr B)"
      "property m ''id'' = Some rid" "B \<noteq> ''server''"
    and survives: "wire rid = rid"
    and regB: "map_of (clients s) B = Some cB"
    and fwd: "fwd = object_literal
        [(''version'', Some (JNum 2)), (''method'', Some (JStr meth)),
         (''params'', property m ''params''),
         (''id'', Some (JObj [(''requestId'', rid), (''clientId'', JStr A)]))]"
    and okB: "send_throws E (ws cB) fwd = None"
    and resp: "JSON_parse E data' = Some r" "property r ''version'' = Some (JNum 2)"
      "property r ''id'' = property (wire fwd) ''id''"
      "property r ''result'' \<noteq> None \<or> property r ''error'' \<noteq> None"
      "\<not> isRequest r"
    and regA: "map_of (clients s') A = Some cA"
    and bck: "answer = object_literal
        [(''version'', Some (JNum 2)), (''result'', property r ''result''),
         (''error'', property r ''error''), (''id'', Some rid)]"
    and okA: "send_throws E (ws cA) answer = None"
  shows "clientWs_onmessage E s A wA data False = ([Send (ws cB) fwd], None) \<and>
         property (wire fwd) ''method'' = Some (JStr meth) \<and>
         property (wire fwd) ''id'' =
           Some (JObj [(''requestId'', rid), (''clientId'', JStr A)]) \<and>
         clientWs_onmessage E s' B wB data' False = ([Send (ws cA) answer], None) \<and>
         property (wire answer) ''id'' = Some rid \<and>
         property (wire answer) ''result'' = map_option wire (property r ''result'') \<and>
         property (wire answer) ''error'' = map_option wire (property r ''error'')"
proof -
  have fm: "property fwd ''method'' = Some (JStr meth)"
    by (cases "property m ''params''") (simp_all add: fwd object_literal_def)
  have fi: "property fwd ''id'' = Some (JObj [(''requestId'', rid), (''clientId'', JStr A)])"
    by (cases "property m ''params''") (simp_all add: fwd object_literal_def)
  have wm: "property (wire fwd) ''method'' = Some (JStr meth)"
    by (simp add: property_wire fm)
  have fid: "property (wire fwd) ''id'' =
      Some (JObj [(''requestId'', rid), (''clientId'', JStr A)])"
    by (simp add: property_wire fi survives)
  have ans: "property answer ''id'' = Some rid"
      "property answer ''result'' = property r ''result''"
      "property answer ''error'' = property r ''error''"
    by (cases "property r ''result''"; cases "property r ''error''";
        simp add: bck object_literal_def)+
  have bid: "property (wire answer) ''id'' = Some rid"
      "property (wire answer) ''result'' = map_option wire (property r ''result'')"
      "property (wire answer) ''error'' = map_option wire (property r ''error'')"
    by (simp_all add: property_wire ans survives)
  have "isRequest m" "\<not> isBroadcast m"
    using req by (simp_all add: isRequest_def isBroadcast_def)
  then have "route E s A wA m = forwardRequest E s A m"
    using req by (simp add: route_def)
  also have "\<dots> = ([Send (ws cB) fwd], None)"
    using req regB okB
    by (simp add: forwardRequest_def getClientWs_def ws_send_def fwd PROTOCOL_VERSION_def)
  finally have r1: "route E s A wA m = ([Send (ws cB) fwd], None)" .
  have h1: "clientWs_onmessage E s A wA data False = ([Send (ws cB) fwd], None)"
    using parse_version2 [OF req(1,2)] r1 by (simp add: clientWs_onmessage_def)
  have rid': "property r ''id'' = Some (JObj [(''requestId'', rid), (''clientId'', JStr A)])"
    using resp(3) fid by simp
  have nb: "\<not> isBroadcast r" using rid' by (simp add: isBroadcast_def)
  have ir: "isResponse r = Inr True"
    using rid' resp(4) by (auto simp: isResponse_def typeof_undefined_iff)
  have "route E s' B wB r = forwardResponse E s' r"
    using nb resp(5) ir by (simp add: route_def)
  also have "\<dots> = ([Send (ws cA) answer], None)"
    using rid' regA okA
    by (simp add: forwardResponse_def getClientWs_def ws_send_def bck PROTOCOL_VERSION_def)
  finally have r2: "route E s' B wB r = ([Send (ws cA) answer], None)" .
  have h2: "clientWs_onmessage E s' B wB data' False = ([Send (ws cA) answer], None)"
    using parse_version2 [OF resp(1,2)] r2 by (simp add: clientWs_onmessage_def)
  show ?thesis using h1 wm fid h2 bid by simp
qed

theorem round_trip_correlation_witness:
  "clientWs_onmessage example_env example_relay ''client#0'' 0 request_text False =
     ([Send 1 (JObj [(''version'', JNum 2), (''method'', JStr ''m''),
                     (''id'', JObj [(''requestId'', JStr ''r1''),
                                    (''clientId'', JStr ''client#0'')])])], None) \<and>
   wire (JObj [(''version'', JNum 2), (''method'', JStr ''m''),
               (''id'', JObj [(''requestId'', JStr ''r1''), (''clientId'', JStr ''client#0'')])]) =
     JObj [(''version'', JNum 2), (''method'', JStr ''m''),
           (''id'', JObj [(''requestId'', JStr ''r1''), (''clientId'', JStr ''client#0'')])] \<and>
   clientWs_onmessage example_env example_relay ''client#1'' 1 response_text False =
     ([Send 0 (JObj [(''version'', JNum 2), (''result'', JNum 42), (''id'', JStr ''r1'')])], None) \<and>
   wire (JObj [(''version'', JNum 2), (''result'', JNum 42), (''id'', JStr ''r1'')]) =
     JObj [(''version'', JNum 2), (''result'', JNum 42), (''id'', JStr ''r1'')]"
proof -
  let ?fwd = "object_literal
        [(''version'', Some (JNum 2)), (''method'', Some (JStr ''m'')),
         (''params'', property request_msg ''params''),
         (''id'', Some (JObj [(''requestId'', JStr ''r1''), (''clientId'', JStr ''client#0'')]))]"
  let ?answer = "object_literal
        [(''version'', Some (JNum 2)), (''result'', property response_msg ''result''),
         (''error'', property response_msg ''error''), (''id'', Some (JStr ''r1''))]"
  have "clientWs_onmessage example_env example_relay ''client#0'' 0 request_text False =
          ([Send (ws \<lparr>ws = 1, url = ''/debugger-proxy?role=debugger''\<rparr>) ?fwd], None) \<and>
        property (wire ?fwd) ''method'' = Some (JStr ''m'') \<and>
        property (wire ?fwd) ''id'' =
          Some (JObj [(''requestId'', JStr ''r1''), (''clientId'', JStr ''client#0'')]) \<and>
        clientWs_onmessage example_env example_relay ''client#1'' 1 response_text False =
          ([Send (ws \<lparr>ws = 0, url = ''/debugger-proxy?role=app''\<rparr>) ?answer], None) \<and>
        property (wire ?answer) ''id'' = Some (JStr ''r1'') \<and>
        property (wire ?answer) ''result'' = map_option wire (property response_msg ''result'') \<and>
        property (wire ?answer) ''error'' = map_option wire (property response_msg ''error'')"
    by (rule round_trip_correlation [where m = request_msg and r = response_msg
          and meth = "''m''" and B = "''client#1''" and s' = example_relay])
       (simp_all add: example_parse example_sends example_relay_eq request_msg_def
          response_msg_def object_literal_def isRequest_def)
  then show ?thesis
    by (simp add: request_msg_def response_msg_def object_literal_def)
qed

text \<open>
  C10: a peer-targeted request without \<^verbatim>\<open>id\<close> is forwarded without \<^verbatim>\<open>id\<close>: the
  payload is the version, method and params only. A message without \<^verbatim>\<open>id\<close> is never a
  Response, so an answer that carries no identifier either is not forwarded to anyone:
  unless it is a Broadcast or a Request it fails as an invalid message.
\<close>

theorem forward_without_id:
  assumes rq: "isRequest m" "property m ''target'' \<noteq> Some (JStr ''server'')"
    and noid: "property m ''id'' = None"
    and tgt: "getClientWs E s (property m ''target'') = Inr wB"
    and rnoid: "property r ''id'' = None"
  shows "route E s A wA m =
           ([Send wB (forwarded m)], send_throws E wB (forwarded m)) \<and>
         property (forwarded m) ''id'' = None \<and>
         isResponse r = Inr False \<and>
         (\<not> isBroadcast r \<and> \<not> isRequest r \<longrightarrow>
            route E s' B wB r = ([], Some (Error ''Invalid message, did not match the protocol'')))"
proof -
  have "\<not> isBroadcast m" using rq(1) by (rule isRequest_not_isBroadcast)
  then have "route E s A wA m = forwardRequest E s A m"
    using rq by (simp add: route_def)
  then have a: "route E s A wA m = ([Send wB (forwarded m)], send_throws E wB (forwarded m))"
    using noid tgt
    by (cases "property m ''method''"; cases "property m ''params''")
       (simp_all add: forwardRequest_def ws_send_def forwarded_def object_literal_def)
  have b: "property (forwarded m) ''id'' = None"
    by (cases "property m ''method''"; cases "property m ''params''")
       (simp_all add: forwarded_def object_literal_def PROTOCOL_VERSION_def)
  have c: "isResponse r = Inr False" using rnoid by (rule isResponse_no_id)
  show ?thesis using a b c by (simp add: route_def)
qed

theorem forward_without_id_witness:
  "route example_env example_relay ''client#0'' 0 request_noid_msg =
     ([Send 1 (JObj [(''version'', JNum 2), (''method'', JStr ''m'')])], None) \<and>
   isResponse reply_noid_msg = Inr False \<and>
   route example_env example_relay ''client#1'' 1 reply_noid_msg =
     ([], Some (Error ''Invalid message, did not match the protocol''))"
proof -
  have rq: "isRequest request_noid_msg"
    "property request_noid_msg ''target'' \<noteq> Some (JStr ''server'')"
    "property request_noid_msg ''id'' = None"
    by (simp_all add: request_noid_msg_def isRequest_def)
  have t: "getClientWs example_env example_relay (property request_noid_msg ''target'') = Inr 1"
    by (simp add: request_noid_msg_def getClientWs_def example_relay_eq)
  have r: "property reply_noid_msg ''id'' = None"
    "\<not> isBroadcast reply_noid_msg" "\<not> isRequest reply_noid_msg"
    by (simp_all add: reply_noid_msg_def isBroadcast_def isRequest_def)
  show ?thesis
    using forward_without_id [where A = "''client#0''" and wA = 0 and s' = example_relay
            and B = "''client#1''", OF rq t r(1)] r(2,3)
    by (simp add: forwarded_def request_noid_msg_def object_literal_def PROTOCOL_VERSION_def
          example_sends)
qed

section \<open>Broadcast\<close>

lemma broadcast_loop_sends:
  "filter is_Send (broadcast_loop E b f cs) =
     map (\<lambda>(otherId, other). Send (ws other) f) (filter (\<lambda>(otherId, other). Some otherId \<noteq> b) cs)"
  by (induction cs) (auto split: option.splits)

lemma broadcast_loop_logs:
  "filter is_LogError (broadcast_loop E b f cs) =
     concat (map (\<lambda>(otherId, other).
                    case send_throws E (ws other) f of
                      None \<Rightarrow> []
                    | Some e \<Rightarrow> [LogError (BroadcastFailed otherId (exn_toString e))])
               (filter (\<lambda>(otherId, other). Some otherId \<noteq> b) cs))"
  by (induction cs) (auto split: option.splits)

lemma broadcast_loop_ok:
  "\<forall>(otherId, other)\<in>set cs. Some otherId \<noteq> b \<longrightarrow> send_throws E (ws other) f = None \<Longrightarrow>
   broadcast_loop E b f cs =
     map (\<lambda>(otherId, other). Send (ws other) f) (filter (\<lambda>(otherId, other). Some otherId \<noteq> b) cs)"
  by (induction cs) (auto split: option.splits)

lemma length_filter_others:
  "distinct (map fst kvs) \<Longrightarrow> map_of kvs k = Some v \<Longrightarrow>
   length (filter (\<lambda>(k', v'). k' \<noteq> k) kvs) = length kvs - 1"
proof (induction kvs)
  case Nil
  then show ?case by simp
next
  case (Cons kv kvs)
  obtain k' v' where kv: "kv = (k', v')" by (cases kv)
  show ?case
  proof (cases "k' = k")
    case True
    then have "k \<notin> fst ` set kvs" using Cons.prems(1) kv by auto
    then have "filter (\<lambda>(k', v'). k' \<noteq> k) kvs = kvs"
      by (force simp: filter_id_conv)
    then show ?thesis using True kv by simp
  next
    case False
    then have m: "map_of kvs k = Some v" using Cons.prems(2) kv by simp
    then have "kvs \<noteq> []" by auto
    then have "0 < length kvs" by simp
    moreover have "length (filter (\<lambda>(k', v'). k' \<noteq> k) kvs) = length kvs - 1"
      using Cons.IH Cons.prems(1) m by simp
    ultimately show ?thesis using False kv by simp
  qed
qed

lemma forwarded_shape:
  "isBroadcast m \<Longrightarrow>
   \<exists>meth. forwarded m =
     JObj ((''version'', JNum 2) # (''method'', JStr meth) #
           (case property m ''params'' of None \<Rightarrow> [] | Some p \<Rightarrow> [(''params'', p)]))"
  by (auto simp: isBroadcast_def typeof_string_iff forwarded_def object_literal_def
        PROTOCOL_VERSION_def split: option.splits)

text \<open>
  C3: a Broadcast from a registered connection \<open>A\<close>, when no send throws, is sent
  once to every other registry entry and to nobody else: the count is the registry size
  minus one, nothing is sent on the socket of \<open>A\<close>, and the payload has the fields
  \<^verbatim>\<open>version\<close>, \<^verbatim>\<open>method\<close> and, when present, \<^verbatim>\<open>params\<close> only.
\<close>

theorem broadcast_delivery:
  assumes bc: "isBroadcast m"
    and regA: "map_of (clients s) A = Some cA"
    and keys: "distinct (map fst (clients s))"
    and socks: "distinct (map (\<lambda>(otherId, other). ws other) (clients s))"
    and ok: "\<forall>(otherId, other)\<in>set (clients s).
               otherId \<noteq> A \<longrightarrow> send_throws E (ws other) (forwarded m) = None"
  shows "route E s A wA m =
           (map (\<lambda>(otherId, other). Send (ws other) (forwarded m))
              (filter (\<lambda>(otherId, other). otherId \<noteq> A) (clients s)), None) \<and>
         length (filter (\<lambda>(otherId, other). otherId \<noteq> A) (clients s)) = length (clients s) - 1 \<and>
         (\<forall>p. Send (ws cA) p \<notin> set (fst (route E s A wA m))) \<and>
         (\<exists>meth. forwarded m =
            JObj ((''version'', JNum 2) # (''method'', JStr meth) #
                  (case property m ''params'' of None \<Rightarrow> [] | Some p \<Rightarrow> [(''params'', p)])))"
proof -
  have ne: "clients s \<noteq> []" using regA by auto
  have "route E s A wA m = (broadcast_loop E (Some A) (forwarded m) (clients s), None)"
    using bc ne by (simp add: route_def handleSendBroadcast_def)
  moreover have "broadcast_loop E (Some A) (forwarded m) (clients s) =
      map (\<lambda>(otherId, other). Send (ws other) (forwarded m))
        (filter (\<lambda>(otherId, other). Some otherId \<noteq> Some A) (clients s))"
    using ok by (intro broadcast_loop_ok) auto
  ultimately have r: "route E s A wA m =
           (map (\<lambda>(otherId, other). Send (ws other) (forwarded m))
              (filter (\<lambda>(otherId, other). otherId \<noteq> A) (clients s)), None)"
    by simp
  have inA: "(A, cA) \<in> set (clients s)" using regA by (rule map_of_SomeD)
  have notA: "Send (ws cA) p \<notin> set (fst (route E s A wA m))" for p
  proof
    assume "Send (ws cA) p \<in> set (fst (route E s A wA m))"
    then obtain otherId other where o: "(otherId, other) \<in> set (clients s)" "otherId \<noteq> A"
        "ws other = ws cA"
      using r by auto
    have "inj_on (\<lambda>(otherId, other). ws other) (set (clients s))"
      using socks by (simp add: distinct_map)
    from inj_onD [OF this, of "(otherId, other)" "(A, cA)"]
    have "(otherId, other) = (A, cA)"
      using o(1,3) inA by simp
    then show False using o(2) by simp
  qed
  show ?thesis
    using r length_filter_others [OF keys regA] notA forwarded_shape [OF bc] by blast
qed

theorem broadcast_delivery_witness:
  "isBroadcast broadcast_msg \<and>
   route example_env example_relay ''client#0'' 0 broadcast_msg =
     ([Send 1 (JObj [(''version'', JNum 2), (''method'', JStr ''reload''), (''params'', JObj [])]),
       Send 2 (JObj [(''version'', JNum 2), (''method'', JStr ''reload''), (''params'', JObj [])])],
      None)"
proof -
  have bc: "isBroadcast broadcast_msg"
    by (simp add: broadcast_msg_def isBroadcast_def)
  have "route example_env example_relay ''client#0'' 0 broadcast_msg =
           (map (\<lambda>(otherId, other). Send (ws other) (forwarded broadcast_msg))
              (filter (\<lambda>(otherId, other). otherId \<noteq> ''client#0'') (clients example_relay)), None) \<and>
         length (filter (\<lambda>(otherId, other). otherId \<noteq> ''client#0'') (clients example_relay)) =
           length (clients example_relay) - 1 \<and>
         (\<forall>p. Send (ws \<lparr>ws = 0, url = ''/debugger-proxy?role=app''\<rparr>) p
               \<notin> set (fst (route example_env example_relay ''client#0'' 0 broadcast_msg))) \<and>
         (\<exists>meth. forwarded broadcast_msg =
            JObj ((''version'', JNum 2) # (''method'', JStr meth) #
                  (case property broadcast_msg ''params'' of None \<Rightarrow> [] | Some p \<Rightarrow> [(''params'', p)])))"
    by (rule broadcast_delivery [OF bc])
       (simp_all add: example_relay_eq example_sends)
  then show ?thesis
    using bc by (simp add: example_relay_eq forwarded_def broadcast_msg_def object_literal_def
                   PROTOCOL_VERSION_def)
qed

text \<open>
  C9: the fan-out calls \<^verbatim>\<open>send\<close> on every entry other than the broadcaster whether
  or not earlier sends threw, logs one error for each send that threw, and raises
  nothing. With an empty registry the host's broadcast sends nothing, emits one warning
  and raises nothing.
\<close>

theorem broadcast_fault_isolation:
  "(typeof (property m ''method'') = ''string'' \<longrightarrow> snd (handleSendBroadcast E s b m) = None) \<and>
   snd (broadcast E s method params) = None \<and>
   filter is_Send (fst (handleSendBroadcast E s b m)) =
     map (\<lambda>(otherId, other). Send (ws other) (forwarded m))
       (filter (\<lambda>(otherId, other). Some otherId \<noteq> b) (clients s)) \<and>
   filter is_LogError (fst (handleSendBroadcast E s b m)) =
     concat (map (\<lambda>(otherId, other).
                    case send_throws E (ws other) (forwarded m) of
                      None \<Rightarrow> []
                    | Some e \<Rightarrow> [LogError (BroadcastFailed otherId (exn_toString e))])
               (filter (\<lambda>(otherId, other). Some otherId \<noteq> b) (clients s))) \<and>
   (clients s = [] \<longrightarrow> broadcast E s method params = ([LogWarn (NoAppsConnected method)], None))"
  by (auto simp: handleSendBroadcast_def broadcast_def typeof_string_iff
       broadcast_loop_sends broadcast_loop_logs split: sum.splits)

theorem broadcast_fault_isolation_witness:
  "handleSendBroadcast failing_env example_relay (Some ''client#0'') broadcast_msg =
     ([Send 1 (JObj [(''version'', JNum 2), (''method'', JStr ''reload''), (''params'', JObj [])]),
       LogError (BroadcastFailed ''client#1'' ''Error: WebSocket is not open''),
       Send 2 (JObj [(''version'', JNum 2), (''method'', JStr ''reload''), (''params'', JObj [])])],
      None) \<and>
   broadcast failing_env example_relay ''ping'' None =
     ([Send 0 (JObj [(''version'', JNum 2), (''method'', JStr ''ping'')]),
       Send 1 (JObj [(''version'', JNum 2), (''method'', JStr ''ping'')]),
       LogError (BroadcastFailed ''client#1'' ''Error: WebSocket is not open''),
       Send 2 (JObj [(''version'', JNum 2), (''method'', JStr ''ping'')])],
      None) \<and>
   broadcast example_env attachToServer ''ping'' (Some (JObj [])) =
     ([LogWarn (NoAppsConnected ''ping'')], None)"
proof -
  have e: "clients (attachToServer :: nat relay) = []"
    by (simp add: attachToServer_def)
  have 3: "broadcast example_env attachToServer ''ping'' (Some (JObj [])) =
     ([LogWarn (NoAppsConnected ''ping'')], None)"
    using broadcast_fault_isolation [of _ example_env attachToServer _ "''ping''" "Some (JObj [])"] e
    by simp
  show ?thesis
    using 3
    by (simp add: handleSendBroadcast_def broadcast_def example_relay_eq failing_sends
          forwarded_def broadcast_msg_def object_literal_def PROTOCOL_VERSION_def)
qed

section \<open>Errors\<close>

text \<open>
  C4: when routing a parsed message throws, the catch of the handler does this.
  If the message has an \<^verbatim>\<open>id\<close>, the sender's socket is sent \<^verbatim>\<open>{version, error, id}\<close>
  with the exception's string and the message's \<^verbatim>\<open>id\<close> as JSON writes it (the same
  value unless it holds a number that is not finite); when that send does not throw
  nothing else happens, and when it throws the failure is logged, provided the
  diagnostic \<^verbatim>\<open>errorMessage\<close> can be serialised. If the message has no \<^verbatim>\<open>id\<close> and
  \<^verbatim>\<open>errorMessage\<close> can be serialised, the failure is logged and nothing is sent. In
  each of these cases the handler returns normally and leaves the state (registry and
  handlers) as it was. Nothing is said of the case where serialising \<^verbatim>\<open>errorMessage\<close>
  throws.
\<close>

theorem error_propagation:
  assumes handler: "onmessage s w = Some clientId"
    and parsed: "JSON_parse E data = Some m" "property m ''version'' = Some (JNum 2)"
    and failure: "route E s clientId w m = (effects, Some e)"
  shows "(property m ''id'' = None \<longrightarrow> stringify_throws E (errorMessage m) = None \<longrightarrow>
            (\<exists>l. step E s (Message w data False) = (s, effects @ [LogError l], None))) \<and>
         (\<forall>i. property m ''id'' = Some i \<longrightarrow>
            wire (JObj [(''version'', JNum 2), (''error'', JStr (exn_toString e)), (''id'', i)]) =
              JObj [(''version'', JNum 2), (''error'', JStr (exn_toString e)), (''id'', wire i)] \<and>
            (send_throws E w
               (JObj [(''version'', JNum 2), (''error'', JStr (exn_toString e)), (''id'', i)]) = None
             \<longrightarrow>
               step E s (Message w data False) =
                 (s, effects @
                     [Send w (JObj [(''version'', JNum 2), (''error'', JStr (exn_toString e)),
                                    (''id'', i)])], None)) \<and>
            (send_throws E w
               (JObj [(''version'', JNum 2), (''error'', JStr (exn_toString e)), (''id'', i)]) \<noteq> None
             \<longrightarrow> stringify_throws E (errorMessage m) = None \<longrightarrow>
               (\<exists>l. step E s (Message w data False) =
                  (s, effects @
                      [Send w (JObj [(''version'', JNum 2), (''error'', JStr (exn_toString e)),
                                     (''id'', i)]), LogError l], None))))"
proof -
  have p: "parseMessage E data False = ([], Some m)"
    using parsed by (rule parse_version2)
  have st: "step E s (Message w data False) =
      (case handleCaughtError E clientId w m (exn_toString e) of
         (handled, uncaught) \<Rightarrow> (s, effects @ handled, uncaught))"
    using handler p failure by (simp add: clientWs_onmessage_def split: prod.splits)
  have a: "\<exists>l. step E s (Message w data False) = (s, effects @ [LogError l], None)"
    if "property m ''id'' = None" "stringify_throws E (errorMessage m) = None"
    using that by (simp add: st handleCaughtError_def JSON_stringify_def del: step.simps)
  have b: "step E s (Message w data False) =
             (s, effects @
                 [Send w (JObj [(''version'', JNum 2), (''error'', JStr (exn_toString e)),
                                (''id'', i)])], None)"
    if "property m ''id'' = Some i"
      "send_throws E w
         (JObj [(''version'', JNum 2), (''error'', JStr (exn_toString e)), (''id'', i)]) = None"
    for i
    using that
    by (simp add: st handleCaughtError_def Let_def PROTOCOL_VERSION_def object_literal_def
          del: step.simps)
  have c: "\<exists>l. step E s (Message w data False) =
             (s, effects @
                 [Send w (JObj [(''version'', JNum 2), (''error'', JStr (exn_toString e)),
                                (''id'', i)]), LogError l], None)"
    if "property m ''id'' = Some i"
      "send_throws E w
         (JObj [(''version'', JNum 2), (''error'', JStr (exn_toString e)), (''id'', i)]) \<noteq> None"
      "stringify_throws E (errorMessage m) = None"
    for i
    using that
    by (auto simp: st handleCaughtError_def Let_def PROTOCOL_VERSION_def object_literal_def
          JSON_stringify_def simp del: step.simps)
  have d: "wire (JObj [(''version'', JNum 2), (''error'', JStr (exn_toString e)), (''id'', i)]) =
              JObj [(''version'', JNum 2), (''error'', JStr (exn_toString e)), (''id'', wire i)]"
    for i
    by simp
  show ?thesis using a b c d by blast
qed

theorem error_propagation_witness:
  \<open>step example_env example_relay (Message 0 invalid_text False) =
     (example_relay,
      [LogError (HandlingFailed ''client#0''
         ''Error: Invalid message, did not match the protocol''
         (JObj [(''error'', JStr ''undefined''), (''params'', JStr ''undefined''),
                (''result'', JStr ''undefined'')]))], None) \<and>
   step example_env example_relay (Message 0 unknown_method_text False) =
     (example_relay,
      [Send 0 (JObj [(''version'', JNum 2), (''error'', JStr ''Error: unknown method: nope''),
                     (''id'', JStr ''u'')])], None) \<and>
   step example_env example_relay (Message 0 unresolved_text False) =
     (example_relay,
      [Send 0 (JObj [(''version'', JNum 2),
                     (''error'', JStr ''Error: could not find id "client#9" while forwarding request''),
                     (''id'', JNum 7)])], None) \<and>
   step failing_env example_relay (Message 0 request_text False) =
     (example_relay,
      [Send 1 (JObj [(''version'', JNum 2), (''method'', JStr ''m''),
                     (''id'', JObj [(''requestId'', JStr ''r1''), (''clientId'', JStr ''client#0'')])]),
       Send 0 (JObj [(''version'', JNum 2), (''error'', JStr ''Error: WebSocket is not open''),
                     (''id'', JStr ''r1'')])], None) \<and>
   step failing_env example_relay (Message 1 unknown_method_text False) =
     (example_relay,
      [Send 1 (JObj [(''version'', JNum 2), (''error'', JStr ''Error: unknown method: nope''),
                     (''id'', JStr ''u'')]),
       LogError (ReplyFailed ''client#1'' ''Error: unknown method: nope''
         (JObj [(''id'', JStr ''u''), (''method'', JStr ''nope''), (''target'', JStr ''server''),
                (''error'', JStr ''undefined''), (''params'', JStr ''undefined''),
                (''result'', JStr ''undefined'')])
         ''Error: WebSocket is not open'')], None)\<close>
proof -
  have h: "onmessage example_relay 0 = Some ''client#0''"
      "onmessage example_relay 1 = Some ''client#1''"
      "onmessage example_relay (Suc 0) = Some ''client#1''"
    by (simp_all add: example_relay_eq)
  have v: "property invalid_msg ''version'' = Some (JNum 2)"
    "property unknown_method_msg ''version'' = Some (JNum 2)"
    "property unresolved_msg ''version'' = Some (JNum 2)"
    "property request_msg ''version'' = Some (JNum 2)"
    by (simp_all add: invalid_msg_def unknown_method_msg_def unresolved_msg_def request_msg_def)
  have r1: "route example_env example_relay ''client#0'' 0 invalid_msg =
      ([], Some (Error ''Invalid message, did not match the protocol''))"
    by (simp add: route_def invalid_msg_def isBroadcast_def isRequest_def isResponse_def)
  have r2: "route E example_relay clientId w unknown_method_msg =
      ([], Some (Error ''unknown method: nope''))" for E :: "nat env" and clientId w
    by (simp add: route_def unknown_method_msg_def isBroadcast_def isRequest_def
          handleServerRequest_def)
  have r3: "route example_env example_relay ''client#0'' 0 unresolved_msg =
      ([], Some (Error (''could not find id '' @ [CHR 0x22] @ ''client#9'' @ [CHR 0x22] @
                        '' while forwarding request'')))"
    by (simp add: route_def unresolved_msg_def isBroadcast_def isRequest_def
          forwardRequest_def getClientWs_def example_relay_eq)
  have r4: "route failing_env example_relay ''client#0'' 0 request_msg =
      ([Send 1 (JObj [(''version'', JNum 2), (''method'', JStr ''m''),
                      (''id'', JObj [(''requestId'', JStr ''r1''), (''clientId'', JStr ''client#0'')])])],
       Some (Error ''WebSocket is not open''))"
    by (simp add: route_def request_msg_def isBroadcast_def isRequest_def forwardRequest_def
          getClientWs_def example_relay_eq ws_send_def failing_sends object_literal_def
          PROTOCOL_VERSION_def)
  note a = error_propagation [OF h(1) example_parse(5) v(1) r1]
    and b = error_propagation [OF h(1) example_parse(3) v(2) r2]
    and c = error_propagation [OF h(1) example_parse(4) v(3) r3]
    and d = error_propagation [where E = failing_env, OF h(1)
              example_parse(1) [folded failing_parse] v(4) r4]
    and e = error_propagation [where E = failing_env, OF h(2)
              example_parse(3) [folded failing_parse] v(2) r2]
  have i: "property invalid_msg ''id'' = None"
    "property unknown_method_msg ''id'' = Some (JStr ''u'')"
    "property unresolved_msg ''id'' = Some (JNum 7)"
    "property request_msg ''id'' = Some (JStr ''r1'')"
    by (simp_all add: invalid_msg_def unknown_method_msg_def unresolved_msg_def request_msg_def)
  have em: "wire (errorMessage invalid_msg) =
      JObj [(''error'', JStr ''undefined''), (''params'', JStr ''undefined''),
            (''result'', JStr ''undefined'')]"
    "wire (errorMessage unknown_method_msg) =
      JObj [(''id'', JStr ''u''), (''method'', JStr ''nope''), (''target'', JStr ''server''),
            (''error'', JStr ''undefined''), (''params'', JStr ''undefined''),
            (''result'', JStr ''undefined'')]"
    by (simp_all add: errorMessage_def Let_def object_literal_def invalid_msg_def
          unknown_method_msg_def)
  have 1: "step example_env example_relay (Message 0 invalid_text False) =
     (example_relay,
      [LogError (HandlingFailed ''client#0''
         ''Error: Invalid message, did not match the protocol''
         (JObj [(''error'', JStr ''undefined''), (''params'', JStr ''undefined''),
                (''result'', JStr ''undefined'')]))], None)"
    using a i(1)
    by (simp add: h clientWs_onmessage_def parse_version2 [OF example_parse(5) v(1)] r1
          handleCaughtError_def JSON_stringify_def example_stringify em)
  have 2: "step example_env example_relay (Message 0 unknown_method_text False) =
     (example_relay,
      [Send 0 (JObj [(''version'', JNum 2), (''error'', JStr ''Error: unknown method: nope''),
                     (''id'', JStr ''u'')])], None)"
    using b i(2) by (auto simp: example_sends)
  have 3: "step example_env example_relay (Message 0 unresolved_text False) =
     (example_relay,
      [Send 0 (JObj [(''version'', JNum 2),
                     (''error'', JStr (''Error: could not find id '' @ [CHR 0x22] @ ''client#9'' @
                        [CHR 0x22] @ '' while forwarding request'')),
                     (''id'', JNum 7)])], None)"
    using c i(3) by (auto simp: example_sends)
  have 4: "step failing_env example_relay (Message 0 request_text False) =
     (example_relay,
      [Send 1 (JObj [(''version'', JNum 2), (''method'', JStr ''m''),
                     (''id'', JObj [(''requestId'', JStr ''r1''), (''clientId'', JStr ''client#0'')])]),
       Send 0 (JObj [(''version'', JNum 2), (''error'', JStr ''Error: WebSocket is not open''),
                     (''id'', JStr ''r1'')])], None)"
    using d i(4) by (auto simp: failing_sends)
  have 5: "step failing_env example_relay (Message 1 unknown_method_text False) =
     (example_relay,
      [Send 1 (JObj [(''version'', JNum 2), (''error'', JStr ''Error: unknown method: nope''),
                     (''id'', JStr ''u'')]),
       LogError (ReplyFailed ''client#1'' ''Error: unknown method: nope''
         (JObj [(''id'', JStr ''u''), (''method'', JStr ''nope''), (''target'', JStr ''server''),
                (''error'', JStr ''undefined''), (''params'', JStr ''undefined''),
                (''result'', JStr ''undefined'')])
         ''Error: WebSocket is not open'')], None)"
    using e i(2)
    by (simp add: h clientWs_onmessage_def
          parse_version2 [OF example_parse(3) [folded failing_parse] v(2)] r2
          handleCaughtError_def Let_def JSON_stringify_def failing_stringify failing_sends em
          object_literal_def PROTOCOL_VERSION_def)
  show ?thesis using 1 2 3 4 5 by simp
qed

text \<open>
  Where the claim as the spec words it fails. The frame \<^verbatim>\<open>{"version":2,"id":1e309}\<close>
  is invalid and carries an \<^verbatim>\<open>id\<close>: the reply is the text with \<^verbatim>\<open>id\<close> \<^verbatim>\<open>null\<close>, not
  the message's \<^verbatim>\<open>id\<close>. The invalid frame without \<^verbatim>\<open>id\<close> whose \<^verbatim>\<open>method\<close> is nested
  too deep for \<^verbatim>\<open>JSON.stringify\<close>: the handler logs nothing, sends nothing and throws.
\<close>

theorem error_propagation_counterexample:
  \<open>JSON_parse example_env nonfinite_id_text = Some nonfinite_id_msg \<and>
   property nonfinite_id_msg ''id'' = Some (JInfinity False) \<and>
   step example_env example_relay (Message 0 nonfinite_id_text False) =
     (example_relay,
      [Send 0 (JObj [(''version'', JNum 2),
                     (''error'', JStr ''Error: Invalid message, did not match the protocol''),
                     (''id'', JInfinity False)])], None) \<and>
   wire (JObj [(''version'', JNum 2),
               (''error'', JStr ''Error: Invalid message, did not match the protocol''),
               (''id'', JInfinity False)]) =
     JObj [(''version'', JNum 2),
           (''error'', JStr ''Error: Invalid message, did not match the protocol''),
           (''id'', JNull)] \<and>
   JSON_parse deep_env deep_text = Some deep_msg \<and>
   property deep_msg ''id'' = None \<and>
   route deep_env example_relay ''client#0'' 0 deep_msg =
     ([], Some (Error ''Invalid message, did not match the protocol'')) \<and>
   step deep_env example_relay (Message 0 deep_text False) =
     (example_relay, [], Some (RangeError ''Maximum call stack size exceeded''))\<close>
proof -
  have h: "onmessage example_relay 0 = Some ''client#0''"
    by (simp add: example_relay_eq)
  have p1: "parseMessage example_env nonfinite_id_text False = ([], Some nonfinite_id_msg)"
    by (rule parse_version2) (simp_all add: example_parse nonfinite_id_msg_def)
  have i1: "property nonfinite_id_msg ''id'' = Some (JInfinity False)"
    by (simp add: nonfinite_id_msg_def)
  have r1: "route example_env example_relay ''client#0'' 0 nonfinite_id_msg =
      ([], Some (Error ''Invalid message, did not match the protocol''))"
    by (simp add: route_def nonfinite_id_msg_def isBroadcast_def isRequest_def isResponse_def)
  have 1: "step example_env example_relay (Message 0 nonfinite_id_text False) =
     (example_relay,
      [Send 0 (JObj [(''version'', JNum 2),
                     (''error'', JStr ''Error: Invalid message, did not match the protocol''),
                     (''id'', JInfinity False)])], None)"
    by (simp add: h clientWs_onmessage_def p1 r1 handleCaughtError_def Let_def
          object_literal_def PROTOCOL_VERSION_def example_sends i1)
  have i2: "property deep_msg ''id'' = None"
    by (simp add: deep_msg_def)
  have p2: "parseMessage deep_env deep_text False = ([], Some deep_msg)"
    by (rule parse_version2) (simp_all add: deep_parse deep_msg_def)
  have r2: "route deep_env example_relay ''client#0'' 0 deep_msg =
      ([], Some (Error ''Invalid message, did not match the protocol''))"
    by (simp add: route_def deep_msg_def isBroadcast_def isRequest_def isResponse_def
          typeof_nest)
  have d: "depth (errorMessage deep_msg) = 1002"
    by (simp add: errorMessage_def Let_def object_literal_def deep_msg_def depth_nest)
  have 2: "step deep_env example_relay (Message 0 deep_text False) =
     (example_relay, [], Some (RangeError ''Maximum call stack size exceeded''))"
    by (simp add: h clientWs_onmessage_def p2 r2 handleCaughtError_def JSON_stringify_def
          deep_stringify d i2)
  show ?thesis
    using 1 2 r2 i1 i2 by (simp add: example_parse deep_parse)
qed

section \<open>Identities\<close>

lemma digit_value_digit: "d < 10 \<Longrightarrow> digit_value (digit d) = d"
proof -
  assume "d < 10"
  then have "d = 0 \<or> d = 1 \<or> d = 2 \<or> d = 3 \<or> d = 4 \<or> d = 5 \<or> d = 6 \<or> d = 7 \<or> d = 8 \<or> d = 9"
    by presburger
  then show ?thesis
    by (elim disjE) (simp_all add: digit_def digit_value_def)
qed

lemma decimal_value_snoc: "decimal_value (s @ [c]) = 10 * decimal_value s + digit_value c"
  by (simp add: decimal_value_def)

lemma decimal_value_Number_toString: "decimal_value (Number_toString n) = n"
proof (induction n rule: Number_toString.induct)
  case (1 n)
  show ?case
  proof (cases "n < 10")
    case True
    then show ?thesis
      by (simp add: Number_toString.simps [of n] decimal_value_def digit_value_digit)
  next
    case False
    then have "decimal_value (Number_toString n) =
        10 * decimal_value (Number_toString (n div 10)) + digit_value (digit (n mod 10))"
      by (simp add: Number_toString.simps [of n] decimal_value_snoc)
    also have "\<dots> = 10 * (n div 10) + n mod 10"
      using "1.IH" False by (simp add: digit_value_digit)
    finally show ?thesis by simp
  qed
qed

lemma Number_toString_inj: "Number_toString a = Number_toString b \<Longrightarrow> a = b"
proof -
  assume "Number_toString a = Number_toString b"
  then have "decimal_value (Number_toString a) = decimal_value (Number_toString b)"
    by (rule arg_cong)
  then show "a = b" by (simp only: decimal_value_Number_toString)
qed

lemma assigned_cases:
  "assigned s ev = [] \<or> assigned s ev = [''client#'' @ Number_toString (nextClientId s)]"
  by (cases ev) (auto simp: connection_def Let_def split: option.splits)

lemma step_nextClientId:
  "nextClientId (fst (step E s ev)) =
     (if assigned s ev = [] then nextClientId s else increment (nextClientId s))"
  by (cases ev) (auto simp: connection_def onCloseHandler_def Let_def split: option.splits)

lemma identities_from:
  "nextClientId s + length (identities E s evs) \<le> 9007199254740992 \<Longrightarrow>
   identities E s evs =
     map (\<lambda>k. ''client#'' @ Number_toString k)
       [nextClientId s ..< nextClientId s + length (identities E s evs)]"
proof (induction evs arbitrary: s)
  case Nil
  then show ?case by simp
next
  case (Cons ev evs)
  let ?s' = "fst (step E s ev)"
  let ?L = "length (identities E ?s' evs)"
  show ?case
  proof (cases "assigned s ev = []")
    case True
    then have n: "nextClientId ?s' = nextClientId s" by (simp add: step_nextClientId)
    have "nextClientId ?s' + ?L \<le> 9007199254740992"
      using Cons.prems True n by simp
    from Cons.IH [OF this] show ?thesis using True n by simp
  next
    case False
    then have a: "assigned s ev = [''client#'' @ Number_toString (nextClientId s)]"
      using assigned_cases [of s ev] by simp
    have lt: "nextClientId s < 9007199254740992" using Cons.prems a by simp
    then have n: "nextClientId ?s' = Suc (nextClientId s)"
      using False by (simp add: step_nextClientId increment_def)
    have "nextClientId ?s' + ?L \<le> 9007199254740992"
      using Cons.prems a n by simp
    from Cons.IH [OF this]
    have "identities E ?s' evs =
        map (\<lambda>k. ''client#'' @ Number_toString k) [Suc (nextClientId s) ..< Suc (nextClientId s) + ?L]"
      using n by simp
    then show ?thesis using a by (simp del: upt_Suc add: upt_conv_Cons)
  qed
qed

text \<open>
  C7: up to \<open>2^53\<close> accepted connections (the range in which the counter is
  exact), the identities assigned during a run from the initial state are
  \<^verbatim>\<open>client#0\<close>, \<^verbatim>\<open>client#1\<close>, ... in the order of acceptance, the suffix being the decimal
  numeral of the position; they are pairwise distinct, whatever closes and errors
  happen in between.
\<close>

theorem identity_assignment:
  assumes "length (identities E attachToServer evs) \<le> 9007199254740992"
  shows "identities E attachToServer evs =
           map (\<lambda>k. ''client#'' @ Number_toString k) [0 ..< length (identities E attachToServer evs)] \<and>
         distinct (identities E attachToServer evs) \<and>
         (\<forall>k. decimal_value (Number_toString k) = k)"
proof -
  have n0: "nextClientId (attachToServer :: 'a relay) = 0" by (simp add: attachToServer_def)
  have eq: "identities E attachToServer evs =
           map (\<lambda>k. ''client#'' @ Number_toString k) [0 ..< length (identities E attachToServer evs)]"
    using identities_from [of attachToServer E evs] assms n0 by simp
  have "distinct (map (\<lambda>k. ''client#'' @ Number_toString k) [0 ..< length (identities E attachToServer evs)])"
    by (simp add: distinct_map inj_on_def Number_toString_inj)
  then have "distinct (identities E attachToServer evs)" using eq by simp
  then show ?thesis using eq decimal_value_Number_toString by blast
qed

theorem identity_assignment_witness:
  "identities example_env attachToServer churn_events = [''client#0'', ''client#1'', ''client#2''] \<and>
   map (\<lambda>k. ''client#'' @ Number_toString k) [0 ..< 3] = [''client#0'', ''client#1'', ''client#2''] \<and>
   distinct (identities example_env attachToServer churn_events) \<and>
   map fst (clients (run example_env attachToServer churn_events)) = [''client#1'', ''client#2'']"
proof -
  have len: "length (identities example_env attachToServer churn_events) \<le> 9007199254740992"
    by (simp add: churn_identities)
  show ?thesis
    using identity_assignment [OF len] churn_clients
    by (simp add: churn_identities numeral_3_eq_3 Number_toString_digit digit_def)
qed

section \<open>Registry invariants\<close>

lemma Map_set_keys:
  "map fst (Map_set kvs k v) = (if k \<in> fst ` set kvs then map fst kvs else map fst kvs @ [k])"
  by (induction kvs) (force split: if_splits)+

lemma Map_set_set: "set (Map_set kvs k v) \<subseteq> insert (k, v) (set kvs)"
  by (induction kvs) (auto split: if_splits)

lemma distinct_Map_set: "distinct (map fst kvs) \<Longrightarrow> distinct (map fst (Map_set kvs k v))"
  by (simp add: Map_set_keys)

lemma distinct_Map_delete: "distinct (map fst kvs) \<Longrightarrow> distinct (map fst (Map_delete kvs k))"
  by (simp add: Map_delete_def distinct_map_filter)

lemma Map_delete_idem: "Map_delete (Map_delete kvs k) k = Map_delete kvs k"
  by (simp add: Map_delete_def)

lemma step_distinct:
  "distinct (map fst (clients s)) \<Longrightarrow> distinct (map fst (clients (fst (step E s ev))))"
  by (cases ev)
     (auto simp: connection_def onCloseHandler_def Let_def distinct_Map_set distinct_Map_delete
        split: option.splits)

lemma step_urls:
  "list_all (\<lambda>(otherId, other). url other \<noteq> []) (clients s) \<Longrightarrow>
   list_all (\<lambda>(otherId, other). url other \<noteq> []) (clients (fst (step E s ev)))"
proof (cases ev)
  case (Connection w u)
  assume a: "list_all (\<lambda>(otherId, other). url other \<noteq> []) (clients s)"
  show ?thesis
    using a Connection
    by (auto simp: connection_def Let_def list_all_iff split: option.splits
          dest!: subsetD [OF Map_set_set])
next
  case (Close w)
  assume "list_all (\<lambda>(otherId, other). url other \<noteq> []) (clients s)"
  then show ?thesis using Close
    by (auto simp: onCloseHandler_def Map_delete_def list_all_iff split: option.splits)
next
  case (Err w)
  assume "list_all (\<lambda>(otherId, other). url other \<noteq> []) (clients s)"
  then show ?thesis using Err
    by (auto simp: onCloseHandler_def Map_delete_def list_all_iff split: option.splits)
next
  case (Message w d b)
  assume "list_all (\<lambda>(otherId, other). url other \<noteq> []) (clients s)"
  then show ?thesis using Message by (auto split: option.splits)
qed

lemma step_handlers:
  "onclose s = onerror s \<Longrightarrow> onclose (fst (step E s ev)) = onerror (fst (step E s ev))"
  by (cases ev) (auto simp: connection_def onCloseHandler_def Let_def split: option.splits)

lemma run_invariant:
  "P s \<Longrightarrow> (\<And>s ev. P s \<Longrightarrow> P (fst (step E s ev))) \<Longrightarrow> P (run E s evs)"
  by (induction evs arbitrary: s) auto

lemma reachable_distinct: "distinct (map fst (clients (run E attachToServer evs)))"
  by (rule run_invariant) (simp_all add: attachToServer_def step_distinct)

lemma reachable_urls:
  "list_all (\<lambda>(otherId, other). url other \<noteq> []) (clients (run E attachToServer evs))"
  by (rule run_invariant) (simp_all add: attachToServer_def step_urls)

lemma reachable_handlers: "onclose (run E attachToServer evs) = onerror (run E attachToServer evs)"
  by (rule run_invariant) (simp_all add: attachToServer_def step_handlers)

lemma onCloseHandler_idem:
  "onCloseHandler (onCloseHandler s clientId w) clientId w = onCloseHandler s clientId w"
  by (simp add: onCloseHandler_def Map_delete_idem)

text \<open>
  C8: in every state reachable from the initial one the registry has no two entries
  with the same identity. The removal handler is idempotent, and a close after an
  error (or an error after a close) on the same socket changes nothing more.
\<close>

theorem registry_invariant:
  "distinct (map fst (clients (run E attachToServer evs))) \<and>
   onCloseHandler (onCloseHandler s clientId w) clientId w = onCloseHandler s clientId w \<and>
   run E (run E attachToServer evs) [Err w, Close w] = run E (run E attachToServer evs) [Err w] \<and>
   run E (run E attachToServer evs) [Close w, Err w] = run E (run E attachToServer evs) [Close w]"
proof -
  let ?s = "run E attachToServer evs"
  have h: "onclose ?s w = onerror ?s w" by (simp add: reachable_handlers)
  have 1: "run E ?s [Err w, Close w] = run E ?s [Err w]"
    using h by (cases "onerror ?s w") (simp_all add: onCloseHandler_def Map_delete_idem)
  have 2: "run E ?s [Close w, Err w] = run E ?s [Close w]"
    using h by (cases "onerror ?s w") (simp_all add: onCloseHandler_def Map_delete_idem)
  show ?thesis by (simp only: reachable_distinct onCloseHandler_idem 1 2 simp_thms)
qed

theorem registry_invariant_witness:
  "map fst (clients (run example_env attachToServer churn_events)) = [''client#1'', ''client#2''] \<and>
   distinct (map fst (clients (run example_env attachToServer churn_events))) \<and>
   run example_env (run example_env attachToServer churn_events) [Err 1, Close 1] =
     run example_env (run example_env attachToServer churn_events) [Err 1]"
proof -
  show ?thesis
    using registry_invariant [of example_env churn_events attachToServer "''x''" 1]
      churn_clients
    by simp
qed

text \<open>
  C6: \<^verbatim>\<open>getpeers\<close> from connection \<open>A\<close>, in a reachable state, replies to \<open>A\<close> with
  an object whose keys are the registered identities other than \<open>A\<close>, in registry
  order, each with the query of that entry's request URL.
\<close>

theorem getpeers_result:
  assumes "property m ''method'' = Some (JStr ''getpeers'')"
    and "property m ''target'' = Some (JStr ''server'')"
    and "s = run E attachToServer evs"
  shows "\<exists>peers.
           route E s A wA m =
             ws_send E wA (object_literal
               [(''version'', Some (JNum 2)), (''result'', Some (JObj peers)),
                (''id'', property m ''id'')]) \<and>
           map fst peers = filter (\<lambda>otherId. otherId \<noteq> A) (map fst (clients s)) \<and>
           (\<forall>(otherId, other)\<in>set (clients s).
              otherId \<noteq> A \<longrightarrow> map_of peers otherId = Some (url_query E (url other)))"
proof -
  let ?others = "filter (\<lambda>(otherId, other). otherId \<noteq> A) (clients s)"
  let ?peers = "map (\<lambda>(otherId, other). (otherId, url_query E (url other))) ?others"
  have urls: "list_all (\<lambda>(otherId, other). url other \<noteq> []) (clients s)"
    using assms(3) reachable_urls by simp
  have d: "distinct (map fst (clients s))" using assms(3) reachable_distinct by simp
  have f: "filter (\<lambda>(otherId, other). A \<noteq> otherId \<and> url other \<noteq> []) (clients s) = ?others"
    using urls by (intro filter_cong) (auto simp: list_all_iff)
  have g: "getpeers E s A = JObj ?peers" by (simp add: getpeers_def f)
  have rq: "isRequest m" "\<not> isBroadcast m"
    using assms(1,2) by (simp_all add: isRequest_def isBroadcast_def)
  have 1: "route E s A wA m =
             ws_send E wA (object_literal
               [(''version'', Some (JNum 2)), (''result'', Some (JObj ?peers)),
                (''id'', property m ''id'')])"
    using rq assms(1,2) g by (simp add: route_def handleServerRequest_def PROTOCOL_VERSION_def)
  have 2: "map fst ?peers = filter (\<lambda>otherId. otherId \<noteq> A) (map fst (clients s))"
    by (induction "clients s") (auto simp: filter_map comp_def case_prod_unfold)
  have 3: "map_of ?peers otherId = Some (url_query E (url other))"
    if "(otherId, other) \<in> set (clients s)" "otherId \<noteq> A" for otherId other
  proof -
    have "distinct (map fst ?peers)" using d 2 by simp
    moreover have "(otherId, url_query E (url other)) \<in> set ?peers" using that by force
    ultimately show ?thesis by (rule map_of_is_SomeI)
  qed
  show ?thesis using 1 2 3 by (intro exI [of _ ?peers]) blast
qed

theorem getpeers_result_witness:
  "route example_env example_relay ''client#0'' 0 getpeers_msg =
     ([Send 0 (JObj [(''version'', JNum 2),
                     (''result'', JObj [(''client#1'', JObj [(''role'', JStr ''debugger'')]),
                                        (''client#2'', JObj [(''role'', JStr ''debugger'')])]),
                     (''id'', JStr ''q'')])], None) \<and>
   route example_env example_relay ''client#1'' 1 getpeers_msg =
     ([Send 1 (JObj [(''version'', JNum 2),
                     (''result'', JObj [(''client#0'', JObj [(''role'', JStr ''app'')]),
                                        (''client#2'', JObj [(''role'', JStr ''debugger'')])]),
                     (''id'', JStr ''q'')])], None)"
proof -
  have m: "property getpeers_msg ''method'' = Some (JStr ''getpeers'')"
    "property getpeers_msg ''target'' = Some (JStr ''server'')"
    by (simp_all add: getpeers_msg_def)
  have uq: "url_query example_env ''/debugger-proxy?role=app'' = JObj [(''role'', JStr ''app'')]"
    "url_query example_env ''/debugger-proxy?role=debugger'' = JObj [(''role'', JStr ''debugger'')]"
    by (simp_all add: example_env_def)
  have "\<exists>peers.
           route example_env example_relay A wA getpeers_msg =
             ws_send example_env wA (object_literal
               [(''version'', Some (JNum 2)), (''result'', Some (JObj peers)),
                (''id'', property getpeers_msg ''id'')]) \<and>
           map fst peers = filter (\<lambda>otherId. otherId \<noteq> A) (map fst (clients example_relay)) \<and>
           (\<forall>(otherId, other)\<in>set (clients example_relay).
              otherId \<noteq> A \<longrightarrow> map_of peers otherId = Some (url_query example_env (url other)))"
    for A wA
    using m example_relay_def by (rule getpeers_result)
  from this [of "''client#0''" 0] this [of "''client#1''" 1] show ?thesis
    by (simp add: route_def isBroadcast_def isRequest_def m handleServerRequest_def getpeers_def
          example_relay_eq uq ws_send_def example_sends object_literal_def PROTOCOL_VERSION_def
          getpeers_msg_def)
qed

end
